theory Spec2Isabelle
  imports Complex_Main "HOL-Library.Product_Lexorder"
begin

section \<open>JavaScript values used by the layout service\<close>

text \<open>
  A JavaScript number is modelled as a rational or \<open>NaN\<close> (the result of arithmetic on
  a missing field). Rounding of IEEE doubles is not modelled, and the model has no
  infinities: a division by zero is \<open>NaN\<close> here. Comparisons with \<open>NaN\<close> are false, as
  in JavaScript.
\<close>

datatype jsnum = Num rat | NaN

fun jadd :: "jsnum \<Rightarrow> jsnum \<Rightarrow> jsnum" where
  "jadd (Num a) (Num b) = Num (a + b)"
| "jadd _ _ = NaN"

fun jsub :: "jsnum \<Rightarrow> jsnum \<Rightarrow> jsnum" where
  "jsub (Num a) (Num b) = Num (a - b)"
| "jsub _ _ = NaN"

fun jmul :: "jsnum \<Rightarrow> jsnum \<Rightarrow> jsnum" where
  "jmul (Num a) (Num b) = Num (a * b)"
| "jmul _ _ = NaN"

fun jdiv :: "jsnum \<Rightarrow> jsnum \<Rightarrow> jsnum" where
  "jdiv (Num a) (Num b) = (if b = 0 then NaN else Num (a / b))"
| "jdiv _ _ = NaN"

fun jlt :: "jsnum \<Rightarrow> jsnum \<Rightarrow> bool" where
  "jlt (Num a) (Num b) = (a < b)"
| "jlt _ _ = False"

fun jle :: "jsnum \<Rightarrow> jsnum \<Rightarrow> bool" where
  "jle (Num a) (Num b) = (a \<le> b)"
| "jle _ _ = False"

definition jgt :: "jsnum \<Rightarrow> jsnum \<Rightarrow> bool" where
  "jgt a b = jlt b a"

definition jge :: "jsnum \<Rightarrow> jsnum \<Rightarrow> bool" where
  "jge a b = jle b a"

text \<open>Strict equality \<open>===\<close> on numbers: \<open>NaN\<close> is not equal to itself.\<close>

fun jeq :: "jsnum \<Rightarrow> jsnum \<Rightarrow> bool" where
  "jeq (Num a) (Num b) = (a = b)"
| "jeq _ _ = False"

text \<open>\<open>Math.trunc\<close>, \<open>Math.round\<close> (half up) and \<open>Math.max\<close>.\<close>

fun jtrunc :: "jsnum \<Rightarrow> jsnum" where
  "jtrunc (Num a) = Num (of_int (if 0 \<le> a then \<lfloor>a\<rfloor> else \<lceil>a\<rceil>))"
| "jtrunc NaN = NaN"

fun jround :: "jsnum \<Rightarrow> jsnum" where
  "jround (Num a) = Num (of_int \<lfloor>a + 1 / 2\<rfloor>)"
| "jround NaN = NaN"

fun jmax :: "jsnum \<Rightarrow> jsnum \<Rightarrow> jsnum" where
  "jmax (Num a) (Num b) = Num (max a b)"
| "jmax _ _ = NaN"

datatype jserror = TypeError | SyntaxError

section \<open>Documents: sizes, constraints, components, devices\<close>

text \<open>
  \<open>PackingSize\<close> (\<open>IPrefSizeDocument\<close>): \<open>width\<close> and \<open>height\<close> are required by the
  constraint schema, \<open>mode\<close> and the inch fields are optional.
\<close>

record PackingSize =
  width :: jsnum
  height :: jsnum
  mode :: "string option"
  widthInches :: "jsnum option"
  heightInches :: "jsnum option"

text \<open>
  A constraint configuration (\<open>IConstraintConfigDocument\<close>). The \<open>aspect\<close> string
  \<open>"w:h"\<close> is represented by the two numbers that \<open>parseFloat\<close> reads from its parts.
\<close>

record ConstraintConfig =
  aspect :: "(jsnum \<times> jsnum) option"
  prefSize :: "PackingSize option"
  minSize :: "PackingSize option"
  targetRegions :: "string list option"
  priority :: int
  audio :: "bool option"
  video :: "bool option"
  touchInteraction :: "bool option"
  margin :: "jsnum option"
  anchor :: "string list option"
  componentDependency :: "string list option"

record ConstraintDocument =
  constraintId :: string
  communal :: ConstraintConfig
  personal :: ConstraintConfig

text \<open>
  \<open>IOverrideDocument\<close>: the scope last stored for a device type and the priorities
  stored under device ids, group ids or the key \<open>"context"\<close>. Both fields are
  required by the interface.
\<close>

record OverrideDocument =
  scope :: string
  priorities :: "string \<rightharpoonup> int"

text \<open>
  A layout coordinate is a number, or the percent string that
  \<open>convertLayoutToPercentages\<close> writes (\<open>Pct v\<close> stands for \<open>v.toString() + "%"\<close>).
\<close>

datatype coord = Px jsnum | Pct jsnum

record LayoutSize =
  lwidth :: coord
  lheight :: coord

record LayoutPosition =
  lx :: coord
  ly :: coord

record ComponentLayout =
  position :: "LayoutPosition option"
  lsize :: "LayoutSize option"
  zDepth :: "jsnum option"
  instanceId :: "string option"
  lpriority :: "int option"
  visible :: "bool option"
  ldeviceId :: "string option"
  regionId :: "string option"
  ltimestamp :: "int option"
  lmode :: "string option"

text \<open>
  \<open>IComponentDocument\<close>; \<open>config\<close> and \<open>parameters\<close> are opaque payloads.
  \<open>DMAppId\<close> and \<open>contextId\<close> are the fields the layout code adds to its copies.
\<close>

record ComponentDocument =
  componentId :: string
  cconstraintId :: "string option"
  config :: string
  parameters :: string
  startTime :: "int option"
  stopTime :: "int option"
  layout :: ComponentLayout
  priorityOverrides :: "(string \<rightharpoonup> OverrideDocument) option"
  cprefSize :: "PackingSize option"
  DMAppId :: "string option"
  contextId :: "string option"

record Capabilities =
  displayWidth :: jsnum
  displayHeight :: jsnum
  displayResolution :: "jsnum option"
  concurrentAudio :: "jsnum option"
  concurrentVideo :: "jsnum option"
  ctouchInteraction :: "bool option"
  communalDevice :: bool

record RegionDocument =
  rregionId :: string
  rdisplayWidth :: jsnum
  rdisplayHeight :: jsnum
  resizable :: bool

record DeviceDocument =
  deviceId :: string
  caps :: Capabilities
  regions :: "RegionDocument list option"
  dgroup :: string

record Context =
  ctxId :: string
  devices :: "DeviceDocument list"
  percentCoords :: "bool option"

record DMApp =
  dmappId :: string
  components :: "ComponentDocument list"
  constraints :: "ConstraintDocument list"

section \<open>Globals\<close>

definition MinDimension :: jsnum where
  "MinDimension = Num 0"

definition absoluteMinSize :: PackingSize where
  "absoluteMinSize = \<lparr>width = Num 1, height = Num 1, mode = Some ''px'',
     widthInches = None, heightInches = None\<rparr>"

definition defaultComponentConstraint :: ConstraintConfig where
  "defaultComponentConstraint = \<lparr>aspect = None, prefSize = None,
     minSize = Some \<lparr>width = MinDimension, height = MinDimension, mode = Some ''px'',
       widthInches = None, heightInches = None\<rparr>,
     targetRegions = None, priority = 1, audio = None, video = None,
     touchInteraction = None, margin = Some (Num 0), anchor = None,
     componentDependency = None\<rparr>"

section \<open>DMApp: constraints and priorities\<close>

text \<open>
  \<open>DMApp.getComponentConstraints\<close>: the first constraint with the given id, with
  \<open>minSize\<close> defaulted to \<open>Globals.absoluteMinSize\<close> on both configurations; the
  default constraint when the id is unknown. (The source stores the defaulted
  \<open>minSize\<close> in the DMApp; every read goes through this function, so the model
  returns the defaulted configuration.)
\<close>

definition withMinSize :: "ConstraintConfig \<Rightarrow> ConstraintConfig" where
  "withMinSize c = (case minSize c of None \<Rightarrow> c\<lparr>minSize := Some absoluteMinSize\<rparr> | Some _ \<Rightarrow> c)"

definition getComponentConstraints :: "DMApp \<Rightarrow> string option \<Rightarrow> bool \<Rightarrow> ConstraintConfig" where
  "getComponentConstraints dmapp cid comm =
     (case filter (\<lambda>c. Some (constraintId c) = cid) (constraints dmapp) of
        [] \<Rightarrow> defaultComponentConstraint
      | c # _ \<Rightarrow> withMinSize (if comm then communal c else personal c))"

text \<open>
  \<open>DMApp.getPriority\<close>. The key looked up in the stored priorities is chosen by the
  scope recorded for the device type. The source's final test is
  \<open>c.hasOwnProperty("constraints)")\<close>, a property name no component has, so the
  fall-back is always the constraint's own priority.
\<close>

definition overrideKey :: "OverrideDocument \<Rightarrow> DeviceDocument \<Rightarrow> string" where
  "overrideKey ov device =
     (if scope ov = ''device'' then deviceId device
      else if scope ov = ''group'' then dgroup device else ''context'')"

definition getPriority :: "DMApp \<Rightarrow> ComponentDocument \<Rightarrow> DeviceDocument \<Rightarrow> string \<Rightarrow> int" where
  "getPriority dmapp c device devtype =
     (let dflt = priority (getComponentConstraints dmapp (cconstraintId c) (devtype = ''communal''))
      in case priorityOverrides c of
           None \<Rightarrow> dflt
         | Some po \<Rightarrow>
             (case po devtype of
                None \<Rightarrow> dflt
              | Some ov \<Rightarrow>
                  (case priorities ov (overrideKey ov device) of
                     Some p \<Rightarrow> p
                   | None \<Rightarrow> dflt)))"

definition resolvePriority :: "DMApp \<Rightarrow> ComponentDocument \<Rightarrow> DeviceDocument \<Rightarrow> bool \<Rightarrow> int" where
  "resolvePriority dmapp c device comm =
     getPriority dmapp c device (if comm then ''communal'' else ''personal'')"









section \<open>Layout documents\<close>

record DeviceLayout =
  ldDeviceId :: string
  ldComponents :: "ComponentDocument list"

record Skipped =
  sgroup :: string
  status :: string
  scomponents :: "string list"

record GeneratedLayout =
  glContextId :: string
  glDevices :: "DeviceLayout list"
  notPlaced :: "Skipped list"
  timestamp :: int

section \<open>Util and model helpers\<close>

definition idSeparator :: string where
  "idSeparator = ''_''"

definition componentInstanceId :: "string \<Rightarrow> string \<Rightarrow> string \<Rightarrow> string \<Rightarrow> string" where
  "componentInstanceId ctxid dmappid deviceid componentid =
     ctxid @ idSeparator @ dmappid @ idSeparator @ deviceid @ idSeparator @ componentid"

definition getComponent :: "DMApp \<Rightarrow> string \<Rightarrow> ComponentDocument option" where
  "getComponent dmapp ident = find (\<lambda>cmp. componentId cmp = ident) (components dmapp)"

definition hasDevice :: "Context \<Rightarrow> string \<Rightarrow> bool" where
  "hasDevice ctx ident = list_ex (\<lambda>device. deviceId device = ident) (devices ctx)"

definition getDevice :: "Context \<Rightarrow> string \<Rightarrow> DeviceDocument option" where
  "getDevice ctx ident = find (\<lambda>dev. deviceId dev = ident) (devices ctx)"

definition getGroupDevices :: "Context \<Rightarrow> string \<Rightarrow> string list" where
  "getGroupDevices ctx groupId = map deviceId (filter (\<lambda>device. dgroup device = groupId) (devices ctx))"

text \<open>Replace the first element that satisfies \<open>p\<close> (an in-place update of the object found).\<close>

fun updateFirst :: "('a \<Rightarrow> bool) \<Rightarrow> ('a \<Rightarrow> 'a) \<Rightarrow> 'a list \<Rightarrow> 'a list" where
  "updateFirst p f [] = []"
| "updateFirst p f (a # as) = (if p a then f a # as else a # updateFirst p f as)"

section \<open>LayoutManager: carrying components over from the previous layout\<close>

text \<open>
  \<open>LayoutManager.manageInitedComps\<close>. For every device of the previous layout and
  every component on it whose \<open>startTime\<close> is null: when the new layout has an entry
  for that device and the entry lacks the component, the component is pushed there.
  Nothing is done when the new layout has no entry for the device.
\<close>

definition carryInited :: "string \<Rightarrow> string \<Rightarrow> DeviceLayout list \<Rightarrow> ComponentDocument \<Rightarrow> DeviceLayout list" where
  "carryInited dmappid devId devs cmp =
     (case find (\<lambda>d. ldDeviceId d = devId) devs of
        None \<Rightarrow> devs
      | Some targetDev \<Rightarrow>
          (case find (\<lambda>c. componentId c = componentId cmp) (ldComponents targetDev) of
             None \<Rightarrow>
               updateFirst (\<lambda>d. ldDeviceId d = devId)
                 (\<lambda>d. d\<lparr>ldComponents := ldComponents d @ [cmp\<lparr>DMAppId := Some dmappid\<rparr>]\<rparr>) devs
           | Some _ \<Rightarrow> devs))"

definition manageInitedComps ::
  "Context \<Rightarrow> GeneratedLayout option \<Rightarrow> GeneratedLayout \<Rightarrow> DMApp \<Rightarrow> GeneratedLayout" where
  "manageInitedComps ctx prevLayout newLayout dmapp =
     (case prevLayout of
        None \<Rightarrow> newLayout
      | Some prev \<Rightarrow>
          newLayout\<lparr>glDevices :=
            foldl (\<lambda>devs dev.
                     foldl (carryInited (dmappId dmapp) (ldDeviceId dev)) devs
                       (filter (\<lambda>c. startTime c = None) (ldComponents dev)))
              (glDevices newLayout) (glDevices prev)\<rparr>)"

text \<open>
  \<open>LayoutManager.manageHiddenComps\<close>. The component pushed into the new layout is
  \<open>latestComp\<close>, the DMApp's own component object, after its \<open>layout\<close> has been
  overwritten; a later push of the same component for another device overwrites the
  \<open>layout\<close> of that same object again. The model keeps the objects pushed so far as
  \<open>Shared\<close> entries and their current state in a store, and reads the store when
  the function returns. When the device entry already holds the component,
  \<open>targetComp = newComp\<close> only rebinds a local variable.
\<close>

datatype entry = Own ComponentDocument | Shared string ComponentDocument

fun entryId :: "entry \<Rightarrow> string" where
  "entryId (Own c) = componentId c"
| "entryId (Shared cid _) = cid"

record hiddenState =
  hdevs :: "(string \<times> entry list) list"
  hstore :: "string \<rightharpoonup> ComponentDocument"

definition emptyLayout :: "string \<Rightarrow> string \<Rightarrow> string \<Rightarrow> string \<Rightarrow> ComponentLayout" where
  "emptyLayout ctxid dmappid devId compId =
     \<lparr>position = Some \<lparr>lx = Px (Num 0), ly = Px (Num 0)\<rparr>,
      lsize = Some \<lparr>lwidth = Px (Num (- 1)), lheight = Px (Num (- 1))\<rparr>,
      zDepth = None,
      instanceId = Some (componentInstanceId ctxid dmappid devId compId),
      lpriority = None, visible = None, ldeviceId = Some devId, regionId = None,
      ltimestamp = None, lmode = None\<rparr>"

definition pushHidden :: "string \<Rightarrow> string \<Rightarrow> ComponentDocument \<Rightarrow> (string \<times> entry list) list \<Rightarrow> (string \<times> entry list) list" where
  "pushHidden devId compId latest devs =
     (case find (\<lambda>d. fst d = devId) devs of
        Some targetDev \<Rightarrow>
          (case find (\<lambda>c. entryId c = compId) (snd targetDev) of
             Some _ \<Rightarrow> devs
           | None \<Rightarrow>
               updateFirst (\<lambda>d. fst d = devId) (\<lambda>d. (fst d, snd d @ [Shared compId latest])) devs)
      | None \<Rightarrow> devs @ [(devId, [Shared compId latest])])"

definition hiddenStep :: "Context \<Rightarrow> DMApp \<Rightarrow> string \<Rightarrow> hiddenState \<Rightarrow> DeviceLayout \<Rightarrow> hiddenState" where
  "hiddenStep ctx dmapp compId st dev =
     (case find (\<lambda>c. componentId c = compId) (ldComponents dev) of
        None \<Rightarrow> st
      | Some cmp \<Rightarrow>
          if hasDevice ctx (ldDeviceId dev) then
            (case getComponent dmapp (componentId cmp) of
               None \<Rightarrow> st
             | Some latest \<Rightarrow>
                 if componentId cmp = compId \<and> stopTime latest = None
                    \<and> startTime cmp \<noteq> None \<and> lsize (layout cmp) \<noteq> None
                 then
                   st\<lparr>hstore := (hstore st)(compId \<mapsto>
                          latest\<lparr>DMAppId := Some (dmappId dmapp), contextId := Some (ctxId ctx),
                            layout := emptyLayout (ctxId ctx) (dmappId dmapp) (ldDeviceId dev) compId\<rparr>),
                      hdevs := pushHidden (ldDeviceId dev) compId latest (hdevs st)\<rparr>
                 else st)
          else st)"

definition hiddenEntry :: "Context \<Rightarrow> DMApp \<Rightarrow> DeviceLayout list \<Rightarrow> hiddenState \<Rightarrow> Skipped \<Rightarrow> hiddenState" where
  "hiddenEntry ctx dmapp prevDevices st np =
     (if status np = ''incompatible'' \<or> status np = ''skipped''
      then foldl (\<lambda>st' compId. foldl (hiddenStep ctx dmapp compId) st' prevDevices) st (scomponents np)
      else st)"

fun resolveEntry :: "(string \<rightharpoonup> ComponentDocument) \<Rightarrow> entry \<Rightarrow> ComponentDocument" where
  "resolveEntry store (Own c) = c"
| "resolveEntry store (Shared cid base) = (case store cid of Some c \<Rightarrow> c | None \<Rightarrow> base)"

definition manageHiddenComps ::
  "Context \<Rightarrow> GeneratedLayout option \<Rightarrow> GeneratedLayout \<Rightarrow> DMApp \<Rightarrow> GeneratedLayout" where
  "manageHiddenComps ctx prevLayout newLayout dmapp =
     (case prevLayout of
        None \<Rightarrow> newLayout
      | Some prev \<Rightarrow>
          (let st0 = \<lparr>hdevs = map (\<lambda>d. (ldDeviceId d, map Own (ldComponents d))) (glDevices newLayout),
                      hstore = Map.empty\<rparr>;
               st = foldl (hiddenEntry ctx dmapp (glDevices prev)) st0 (notPlaced newLayout)
           in newLayout\<lparr>glDevices :=
                map (\<lambda>d. \<lparr>ldDeviceId = fst d, ldComponents = map (resolveEntry (hstore st)) (snd d)\<rparr>)
                  (hdevs st)\<rparr>))"

section \<open>Packer data and sizing utilities (PackerUtils)\<close>

text \<open>
  \<open>ILayoutConstraint\<close>: a constraint configuration after \<open>buildComponentList\<close> has
  resolved it (\<open>prefSize\<close>, \<open>margin\<close>, \<open>_aspect\<close>, \<open>valid\<close>, \<open>dependencies\<close> and the
  resolved \<open>priority\<close> are then always present; \<open>kaspect\<close> is the field \<open>_aspect\<close>).
  The names carry a prefix because the document record already uses them.
\<close>

record LayoutConstraint =
  kaspect :: jsnum
  kprefSize :: PackingSize
  kminSize :: PackingSize
  kvalid :: "string list"
  kpriority :: int
  kaudio :: "bool option"
  kvideo :: "bool option"
  kmargin :: jsnum
  kanchor :: "string list option"
  kdependencies :: "string list"

text \<open>The bounding box read by the sizing functions: a region, or the device display.\<close>

record Box =
  boundingWidth :: jsnum
  boundingHeight :: jsnum
  dpi :: "jsnum option"

record PackerRegion = Box +
  x0 :: jsnum
  y0 :: jsnum
  rwidth :: jsnum
  rheight :: jsnum
  rdeviceId :: string
  pregionId :: string
  maxVideo :: "jsnum option"
  maxAudio :: "jsnum option"
  suitable :: bool
  rcommunal :: bool

text \<open>
  \<open>PackerRectangle\<close>: a candidate handed to the packer and, with its placement
  fields filled in, an element of the packer's result.
\<close>

record PackerRectangle =
  qcomponentId :: string
  qDMAppId :: string
  qconstraints :: LayoutConstraint
  qpersonalconstraints :: "LayoutConstraint option"
  qx0 :: jsnum
  qy0 :: jsnum
  qwidth :: jsnum
  qheight :: jsnum
  qdeviceId :: "string option"
  qregionId :: "string option"

record Packing =
  playout :: "PackerRectangle list"
  pnotPlaced :: "string list"
  pnoDevice :: "string list"

definition noAspect :: jsnum where
  "noAspect = Num 0"

definition minRect :: "jsnum \<times> jsnum" where
  "minRect = (MinDimension, MinDimension)"

definition defaultPrefSize :: PackingSize where
  "defaultPrefSize = \<lparr>width = Num (- 1), height = Num (- 1), mode = Some ''px'',
     widthInches = None, heightInches = None\<rparr>"

text \<open>A missing number (\<open>undefined\<close>) in arithmetic is \<open>NaN\<close>.\<close>

fun toNumber :: "jsnum option \<Rightarrow> jsnum" where
  "toNumber None = NaN"
| "toNumber (Some v) = v"

definition toPixelResolution ::
  "PackingSize \<Rightarrow> jsnum \<times> jsnum \<Rightarrow> 'a Box_scheme \<Rightarrow> jsnum \<Rightarrow> jsnum \<times> jsnum" where
  "toPixelResolution sz defaultval bbox asp =
     (let w0 = (if jeq (width sz) (Num (- 1)) then fst defaultval else width sz);
          h0 = (if jeq (height sz) (Num (- 1)) then snd defaultval else height sz);
          (w1, h1) =
            (if mode sz = Some ''inches''
             then (jmul (toNumber (widthInches sz)) (toNumber (dpi bbox)),
                   jmul (toNumber (heightInches sz)) (toNumber (dpi bbox)))
             else if mode sz = Some ''percent''
             then (jdiv (jmul (width sz) (boundingWidth bbox)) (Num 100),
                   jdiv (jmul (height sz) (boundingHeight bbox)) (Num 100))
             else (w0, h0))
      in if \<not> jeq asp noAspect
         then (if jeq (width sz) (Num 0) then (jtrunc (jdiv h1 asp), h1)
               else (w1, jmax h1 (jtrunc (jmul w1 asp))))
         else (w1, h1))"

definition getAspectCorrectedComponentSize ::
  "jsnum \<Rightarrow> jsnum \<Rightarrow> jsnum \<Rightarrow> jsnum \<Rightarrow> jsnum \<Rightarrow> jsnum \<Rightarrow> jsnum \<times> jsnum" where
  "getAspectCorrectedComponentSize wd ht mrg asp boundingW boundingH =
     (if jeq asp noAspect then (wd, ht)
      else
        (let m = jmul (Num 2) mrg;
             (w, h) =
               (if jle asp (Num 1) then
                  (let h1 = jmul wd asp
                   in if jgt (jadd h1 m) boundingH
                      then (jdiv (jsub ht m) asp, jsub ht m)
                      else (wd, h1))
                else if jgt asp (Num 1) then
                  (let w1 = jdiv ht asp
                   in if jgt (jadd w1 m) boundingW
                      then (jsub wd m, jmul (jsub wd m) asp)
                      else (w1, ht))
                else (wd, ht))
         in (jtrunc w, jtrunc h)))"

definition correctedSize ::
  "jsnum \<Rightarrow> jsnum \<Rightarrow> jsnum \<Rightarrow> jsnum \<Rightarrow> jsnum \<Rightarrow> jsnum \<Rightarrow> jsnum \<times> jsnum" where
  "correctedSize wd ht mrg asp boundingwidth boundingheight =
     (let sz = getAspectCorrectedComponentSize (jsub wd mrg) (jsub ht mrg) mrg asp
                 boundingwidth boundingheight
      in (jadd (fst sz) mrg, jadd (snd sz) mrg))"

definition rectSize :: "LayoutConstraint \<Rightarrow> 'a Box_scheme \<Rightarrow> jsnum \<times> jsnum" where
  "rectSize k bbox =
     (let minsize = toPixelResolution (kminSize k) minRect bbox noAspect;
          pixels = toPixelResolution (kprefSize k) minsize bbox noAspect
      in correctedSize (fst pixels) (snd pixels) (kmargin k) (kaspect k)
           (boundingWidth bbox) (boundingHeight bbox))"

definition largerEqual :: "jsnum \<times> jsnum \<Rightarrow> jsnum \<times> jsnum \<Rightarrow> int" where
  "largerEqual box1 box2 =
     (let w1 = fst box1; w2 = fst box2; h1 = snd box1; h2 = snd box2;
          area1 = jmul w1 h1; area2 = jmul w2 h2
      in if jlt area1 area2 then 1 else if jgt area1 area2 then - 1
         else if jlt w1 w2 then 1 else if jgt w1 w2 then - 1
         else if jlt h1 h2 then 1 else if jeq h1 h2 then 0 else - 1)"

definition isLarger :: "jsnum \<times> jsnum \<Rightarrow> jsnum \<times> jsnum \<Rightarrow> int" where
  "isLarger box1 box2 =
     (if jlt (fst box1) (fst box2) then 1 else if jgt (fst box1) (fst box2) then - 1
      else if jlt (snd box1) (snd box2) then 1 else if jgt (snd box1) (snd box2) then - 1
      else 0)"

section \<open>Array and object helpers of the runtime\<close>

text \<open>
  \<open>Array.prototype.sort\<close> with a comparison function, as the V8 of the Node 9 image
  runs it on arrays of at most ten elements: an insertion sort that moves an element
  left past every predecessor \<open>tmp\<close> with \<open>comparefn(tmp, element) > 0\<close>. (Longer arrays
  go through V8's quicksort, which the model does not follow.) \<open>insertV8\<close> works on
  the sorted prefix in reverse order.
\<close>

fun insertV8 :: "('a \<Rightarrow> 'a \<Rightarrow> int) \<Rightarrow> 'a \<Rightarrow> 'a list \<Rightarrow> 'a list" where
  "insertV8 comparefn element [] = [element]"
| "insertV8 comparefn element (tmp # rest) =
     (if comparefn tmp element > 0 then tmp # insertV8 comparefn element rest
      else element # tmp # rest)"

definition jsSort :: "('a \<Rightarrow> 'a \<Rightarrow> int) \<Rightarrow> 'a list \<Rightarrow> 'a list" where
  "jsSort comparefn xs = rev (foldl (\<lambda>acc element. insertV8 comparefn element acc) [] xs)"

text \<open>\<open>_.uniq\<close> keeps the first occurrence of every value; \<open>_.union\<close> and \<open>_.difference\<close>.\<close>

fun uniqFrom :: "'a list \<Rightarrow> 'a list \<Rightarrow> 'a list" where
  "uniqFrom seen [] = []"
| "uniqFrom seen (a # as) =
     (if a \<in> set seen then uniqFrom seen as else a # uniqFrom (a # seen) as)"

definition unionJs :: "'a list \<Rightarrow> 'a list \<Rightarrow> 'a list" where
  "unionJs as bs = uniqFrom [] (as @ bs)"

definition differenceJs :: "'a list \<Rightarrow> 'a list \<Rightarrow> 'a list" where
  "differenceJs as bs = filter (\<lambda>a. a \<notin> set bs) as"

text \<open>
  \<open>for (const key in obj)\<close> enumerates the keys that are array indices first, in
  ascending numeric order, then the other keys in insertion order. An object used as
  a dictionary of lists is an association list in insertion order.
\<close>

definition isDigit :: "char \<Rightarrow> bool" where
  "isDigit ch = (ch \<in> set ''0123456789'')"

definition digitsValue :: "string \<Rightarrow> nat" where
  "digitsValue ds = foldl (\<lambda>n ch. 10 * n + (of_char ch - 48)) 0 ds"

definition isArrayIndex :: "string \<Rightarrow> bool" where
  "isArrayIndex k =
     (k \<noteq> [] \<and> list_all isDigit k \<and> (k = ''0'' \<or> hd k \<noteq> CHR ''0'')
      \<and> length k \<le> 10 \<and> digitsValue k < 4294967295)"

definition keyOrder :: "(string \<times> 'v) list \<Rightarrow> (string \<times> 'v) list" where
  "keyOrder kvs =
     sort_key (\<lambda>kv. digitsValue (fst kv)) (filter (\<lambda>kv. isArrayIndex (fst kv)) kvs)
     @ filter (\<lambda>kv. \<not> isArrayIndex (fst kv)) kvs"

fun pushKey :: "string \<Rightarrow> 'v \<Rightarrow> (string \<times> 'v list) list \<Rightarrow> (string \<times> 'v list) list" where
  "pushKey k v [] = [(k, [v])]"
| "pushKey k v ((k', vs) # rest) =
     (if k' = k then (k', vs @ [v]) # rest else (k', vs) # pushKey k v rest)"

section \<open>Device capabilities and regions\<close>

text \<open>
  \<open>Device.meetConstraints\<close>. \<open>buildComponentList\<close> calls it before it has defaulted a
  missing \<open>margin\<close>: the subtraction is then \<open>NaN\<close> and the size tests are false.
\<close>

definition meetConstraints :: "DeviceDocument \<Rightarrow> ConstraintConfig \<Rightarrow> bool" where
  "meetConstraints device k =
     (if (case minSize k of
            None \<Rightarrow> False
          | Some ms \<Rightarrow>
              jgt (width ms) (jsub (displayWidth (caps device)) (jmul (Num 2) (toNumber (margin k))))
              \<or> jgt (height ms) (jsub (displayHeight (caps device)) (jmul (Num 2) (toNumber (margin k)))))
      then False
      else if audio k = Some True \<and> jlt (toNumber (concurrentAudio (caps device))) (Num 1) then False
      else if video k = Some True \<and> jlt (toNumber (concurrentVideo (caps device))) (Num 1) then False
      else if touchInteraction k = Some True \<and> ctouchInteraction (caps device) \<noteq> Some True then False
      else True)"

text \<open>
  \<open>LayoutGenerator.buildRegionNodeTree\<close>: one root node per logical region, or one
  whole-device node whose \<open>regionId\<close> is the device id when the device declares no
  region. Reading a device the context does not hold throws.
\<close>

definition deviceNode :: "string \<Rightarrow> DeviceDocument \<Rightarrow> PackerRegion" where
  "deviceNode dev device =
     \<lparr>boundingWidth = displayWidth (caps device), boundingHeight = displayHeight (caps device),
      dpi = displayResolution (caps device), x0 = Num 0, y0 = Num 0,
      rwidth = displayWidth (caps device), rheight = displayHeight (caps device),
      rdeviceId = dev, pregionId = dev,
      maxVideo = concurrentVideo (caps device), maxAudio = concurrentAudio (caps device),
      suitable = True, rcommunal = communalDevice (caps device)\<rparr>"

definition regionNode :: "string \<Rightarrow> DeviceDocument \<Rightarrow> RegionDocument \<Rightarrow> PackerRegion" where
  "regionNode dev device r =
     \<lparr>boundingWidth = rdisplayWidth r, boundingHeight = rdisplayHeight r,
      dpi = displayResolution (caps device), x0 = Num 0, y0 = Num 0,
      rwidth = rdisplayWidth r, rheight = rdisplayHeight r,
      rdeviceId = dev, pregionId = rregionId r,
      maxVideo = concurrentVideo (caps device), maxAudio = concurrentAudio (caps device),
      suitable = True, rcommunal = communalDevice (caps device)\<rparr>"

fun buildRegionNodeTree :: "Context \<Rightarrow> string list \<Rightarrow> jserror + PackerRegion list" where
  "buildRegionNodeTree ctx [] = Inr []"
| "buildRegionNodeTree ctx (dev # devs) =
     (case getDevice ctx dev of
        None \<Rightarrow> Inl TypeError
      | Some device \<Rightarrow>
          (case buildRegionNodeTree ctx devs of
             Inl e \<Rightarrow> Inl e
           | Inr nodes \<Rightarrow>
               Inr ((case regions device of
                       None \<Rightarrow> [deviceNode dev device]
                     | Some [] \<Rightarrow> [deviceNode dev device]
                     | Some rs \<Rightarrow> map (regionNode dev device) rs) @ nodes)))"

section \<open>LayoutGenerator: the component list\<close>

definition getAspect :: "ConstraintConfig \<Rightarrow> jsnum" where
  "getAspect k = (case aspect k of None \<Rightarrow> noAspect | Some (w, h) \<Rightarrow> jdiv h w)"

definition getPrefSize :: "ComponentDocument \<Rightarrow> ConstraintConfig \<Rightarrow> PackingSize" where
  "getPrefSize c k =
     (case cprefSize c of
        Some p \<Rightarrow> p
      | None \<Rightarrow> (case prefSize k of Some p \<Rightarrow> p | None \<Rightarrow> defaultPrefSize))"

text \<open>\<open>minSize\<close> of a configuration that \<open>getComponentConstraints\<close> returned: always set.\<close>

definition theMinSize :: "ConstraintConfig \<Rightarrow> PackingSize" where
  "theMinSize k = (case minSize k of Some m \<Rightarrow> m | None \<Rightarrow> absoluteMinSize)"

text \<open>
  \<open>LayoutGenerator.getPrioritizedComponentList\<close>: every component with its
  constraint configuration (and the personal one in a mixed group), sorted when
  there are at least two.
\<close>

record Prioritized =
  pcomponent :: ComponentDocument
  pconstraints :: ConstraintConfig
  ppersonalconstraints :: "ConstraintConfig option"

definition deviceBox :: "DeviceDocument \<Rightarrow> Box" where
  "deviceBox device = \<lparr>boundingWidth = displayWidth (caps device),
     boundingHeight = displayHeight (caps device), dpi = displayResolution (caps device)\<rparr>"

definition prioritizedCompare :: "DMApp \<Rightarrow> DeviceDocument \<Rightarrow> Prioritized \<Rightarrow> Prioritized \<Rightarrow> int" where
  "prioritizedCompare dmapp device a b =
     (let priorityA = getPriority dmapp (pcomponent a) device ''personal'';
          priorityB = getPriority dmapp (pcomponent b) device ''personal''
      in if priorityA < priorityB then 1
         else if priorityA > priorityB then - 1
         else if anchor (pconstraints a) \<noteq> None then 1
         else if anchor (pconstraints b) \<noteq> None then - 1
         else isLarger
                (toPixelResolution (theMinSize (pconstraints a)) minRect (deviceBox device) noAspect)
                (toPixelResolution (theMinSize (pconstraints b)) minRect (deviceBox device) noAspect))"

definition getPrioritizedComponentList :: "DMApp \<Rightarrow> DeviceDocument \<Rightarrow> string \<Rightarrow> Prioritized list" where
  "getPrioritizedComponentList dmapp device grouptype =
     (let cs = map (\<lambda>c.
                 if grouptype = ''mixed''
                 then \<lparr>pcomponent = c,
                       pconstraints = getComponentConstraints dmapp (cconstraintId c) True,
                       ppersonalconstraints = Some (getComponentConstraints dmapp (cconstraintId c) False)\<rparr>
                 else \<lparr>pcomponent = c,
                       pconstraints = getComponentConstraints dmapp (cconstraintId c)
                                        (communalDevice (caps device)),
                       ppersonalconstraints = None\<rparr>)
               (components dmapp)
      in if length cs < 2 then cs else jsSort (prioritizedCompare dmapp device) cs)"

text \<open>
  The region ids a component may use. With \<open>targetRegions\<close> a listed region is pushed
  for every node that carries it; without, a region is pushed once. The personal
  list of a mixed group is filtered against the communal list, as in the source.
  (The regions come from \<open>buildRegionNodeTree\<close>, which has already read every device.)
\<close>

fun validRegions :: "Context \<Rightarrow> ConstraintConfig \<Rightarrow> string list \<Rightarrow> PackerRegion list \<Rightarrow> string list" where
  "validRegions ctx k seen [] = seen"
| "validRegions ctx k seen (dev # rest) =
     validRegions ctx k
       (if (case getDevice ctx (rdeviceId dev) of None \<Rightarrow> False | Some d \<Rightarrow> meetConstraints d k)
        then (case targetRegions k of
                Some ts \<Rightarrow> if pregionId dev \<in> set ts then seen @ [pregionId dev] else seen
              | None \<Rightarrow> if pregionId dev \<notin> set seen then seen @ [pregionId dev] else seen)
        else seen)
       rest"

fun personalValid :: "Context \<Rightarrow> ConstraintConfig \<Rightarrow> string list \<Rightarrow> string list \<Rightarrow> PackerRegion list \<Rightarrow> string list" where
  "personalValid ctx k validregions acc [] = acc"
| "personalValid ctx k validregions acc (dev # rest) =
     personalValid ctx k validregions
       (if (case getDevice ctx (rdeviceId dev) of None \<Rightarrow> False | Some d \<Rightarrow> meetConstraints d k)
        then (case targetRegions k of
                Some ts \<Rightarrow> if pregionId dev \<in> set ts then acc @ [pregionId dev] else acc
              | None \<Rightarrow> if pregionId dev \<notin> set validregions then acc @ [pregionId dev] else acc)
        else acc)
       rest"

definition toConstraint :: "ComponentDocument \<Rightarrow> ConstraintConfig \<Rightarrow> string list \<Rightarrow> int \<Rightarrow> LayoutConstraint" where
  "toConstraint c k validregions prio =
     \<lparr>kaspect = getAspect k, kprefSize = getPrefSize c k, kminSize = theMinSize k,
      kvalid = validregions, kpriority = prio, kaudio = audio k, kvideo = video k,
      kmargin = (case margin k of None \<Rightarrow> Num 0 | Some m \<Rightarrow> m), kanchor = anchor k,
      kdependencies = (case componentDependency k of None \<Rightarrow> [] | Some ds \<Rightarrow> ds)\<rparr>"

text \<open>
  The comparison function of the sort that ends \<open>buildComponentList\<close>
  (\<open>regions[0]\<close> is the bounding box of the sizes compared; \<open>rectSize\<close> falls back
  to \<open>defaultBBox\<close> when it is missing).
\<close>

definition defaultBBox :: Box where
  "defaultBBox = \<lparr>boundingWidth = Num 1000, boundingHeight = Num 1000, dpi = Some (Num 96)\<rparr>"

definition listCompare :: "'a Box_scheme \<Rightarrow> PackerRectangle \<Rightarrow> PackerRectangle \<Rightarrow> int" where
  "listCompare region0 a b =
     (let pa = kpriority (qconstraints a); pb = kpriority (qconstraints b);
          r = largerEqual (rectSize (qconstraints a) region0) (rectSize (qconstraints b) region0);
          anchorA = kanchor (qconstraints a); anchorB = kanchor (qconstraints b)
      in if pa < pb then 1
         else if pa > pb then - 1
         else if r \<noteq> 0 then r
         else (case anchorB of
                 None \<Rightarrow> 1
               | Some ancB \<Rightarrow>
                   (case anchorA of
                      None \<Rightarrow> - 1
                    | Some ancA \<Rightarrow>
                        if ''top'' \<in> set ancA then - 1
                        else if ''top'' \<in> set ancB then 1
                        else if ''right'' \<in> set ancA then - 1
                        else if ''right'' \<in> set ancB then 1
                        else if ''left'' \<in> set ancA then - 1
                        else if ''left'' \<in> set ancB then 1
                        else if ''bottom'' \<in> set ancA then - 1
                        else if ''bottom'' \<in> set ancB then 1
                        else - 1)))"

record ComponentList =
  componentlist :: "PackerRectangle list"
  allIds :: "string list"

definition listEntry ::
  "Context \<Rightarrow> DMApp \<Rightarrow> DeviceDocument \<Rightarrow> PackerRegion list \<Rightarrow> string \<Rightarrow> Prioritized \<Rightarrow>
     PackerRectangle option" where
  "listEntry ctx dmapp device regs grouptype p =
     (let c = pcomponent p;
          comconstraints = pconstraints p;
          validregions = validRegions ctx comconstraints [] regs;
          personal =
            (if grouptype = ''mixed'' then
               (case ppersonalconstraints p of
                  None \<Rightarrow> None
                | Some pk \<Rightarrow>
                    (let pk' = pk\<lparr>margin := Some (case margin pk of None \<Rightarrow> Num 0 | Some m \<Rightarrow> m)\<rparr>
                     in Some (toConstraint c pk' (personalValid ctx pk' validregions [] regs)
                                (resolvePriority dmapp c device False))))
             else None);
          k = toConstraint c comconstraints validregions
                (resolvePriority dmapp c device
                   (if grouptype = ''mixed'' then True else communalDevice (caps device)));
          isVisible = ((visible (layout c) = None \<or> visible (layout c) = Some True) \<and> kpriority k > 0)
      in if validregions \<noteq> [] \<and> isVisible
         then Some \<lparr>qcomponentId = componentId c, qDMAppId = dmappId dmapp, qconstraints = k,
                    qpersonalconstraints = personal, qx0 = NaN, qy0 = NaN, qwidth = NaN,
                    qheight = NaN, qdeviceId = None, qregionId = None\<rparr>
         else None)"

definition buildComponentList ::
  "Context \<Rightarrow> DMApp list \<Rightarrow> string list \<Rightarrow> PackerRegion list \<Rightarrow> string \<Rightarrow> jserror + ComponentList" where
  "buildComponentList ctx dmapps devicelist regs grouptype =
     (case (case devicelist of [] \<Rightarrow> None | d # _ \<Rightarrow> getDevice ctx d) of
        None \<Rightarrow> Inl TypeError
      | Some device \<Rightarrow>
          (let ps = concat (map (\<lambda>dmapp. map (\<lambda>p. (dmapp, p))
                                  (getPrioritizedComponentList dmapp device grouptype)) dmapps);
               cl = List.map_filter (\<lambda>(dmapp, p). listEntry ctx dmapp device regs grouptype p) ps
           in Inr \<lparr>componentlist =
                     (case regs of
                        [] \<Rightarrow> jsSort (listCompare defaultBBox) cl
                      | r0 # _ \<Rightarrow> jsSort (listCompare r0) cl),
                   allIds = map (\<lambda>(dmapp, p). componentId (pcomponent p)) ps\<rparr>))"

section \<open>LayoutGenerator: running the packer and assembling the layout\<close>

record ContextLayout =
  cdevices :: "DeviceLayout list"
  cnotPlaced :: "Skipped list"
  cnoDevice :: "string list"

text \<open>\<open>String(v)\<close> of an optional string in a concatenation.\<close>

fun strOf :: "string option \<Rightarrow> string" where
  "strOf None = ''undefined''"
| "strOf (Some v) = v"

text \<open>
  The body of \<open>packed.layout.forEach\<close> in \<open>runLayout\<close>: the component document
  emitted for a packed rectangle. \<open>now\<close> is the reading of \<open>Timestamper.getTimestampNS\<close>.
\<close>

definition layoutComponent ::
  "int \<Rightarrow> Context \<Rightarrow> DMApp list \<Rightarrow> string \<Rightarrow> PackerRectangle \<Rightarrow> jserror + ComponentDocument" where
  "layoutComponent now ctx dmapps grouptype c =
     (case find (\<lambda>search. dmappId search = qDMAppId c) dmapps of
        None \<Rightarrow> Inl TypeError
      | Some dmapp \<Rightarrow>
          (case getComponent dmapp (qcomponentId c) of
             None \<Rightarrow> Inl SyntaxError
           | Some component \<Rightarrow>
               (case (if grouptype = ''mixed'' then
                        (case (case qdeviceId c of None \<Rightarrow> None | Some d \<Rightarrow> getDevice ctx d) of
                           None \<Rightarrow> Inl TypeError
                         | Some device \<Rightarrow>
                             if \<not> communalDevice (caps device)
                             then (case qpersonalconstraints c of
                                     None \<Rightarrow> Inl TypeError
                                   | Some pk \<Rightarrow> Inr pk)
                             else Inr (qconstraints c))
                      else Inr (qconstraints c)) of
                  Inl e \<Rightarrow> Inl e
                | Inr componentConstraints \<Rightarrow>
                    Inr (component\<lparr>DMAppId := Some (dmappId dmapp), contextId := Some (ctxId ctx),
                           layout := (layout component)\<lparr>
                             lsize := Some \<lparr>
                               lwidth = Px (jsub (qwidth c) (jmul (Num 2) (kmargin componentConstraints))),
                               lheight = Px (jsub (qheight c) (jmul (Num 2) (kmargin componentConstraints)))\<rparr>,
                             position := Some \<lparr>
                               lx = Px (jadd (qx0 c) (kmargin componentConstraints)),
                               ly = Px (jadd (qy0 c) (kmargin componentConstraints))\<rparr>,
                             lpriority := Some (kpriority componentConstraints),
                             ldeviceId := qdeviceId c,
                             regionId := (case qregionId c of Some r \<Rightarrow> Some r | None \<Rightarrow> qdeviceId c),
                             ltimestamp := Some now,
                             lmode := mode (kprefSize componentConstraints)\<rparr>\<rparr>))))"

text \<open>
  The loop over \<open>packed.layout\<close>: \<open>groupLayout\<close> collects the components per device
  id, \<open>skipped\<close> the ids of rectangles without a device.
\<close>

fun parseLayout ::
  "int \<Rightarrow> Context \<Rightarrow> DMApp list \<Rightarrow> string \<Rightarrow> (string \<times> ComponentDocument list) list \<Rightarrow> string list \<Rightarrow>
     PackerRectangle list \<Rightarrow> jserror + (string \<times> ComponentDocument list) list \<times> string list" where
  "parseLayout now ctx dmapps grouptype groupLayout skipped [] = Inr (groupLayout, skipped)"
| "parseLayout now ctx dmapps grouptype groupLayout skipped (c # cs) =
     (case layoutComponent now ctx dmapps grouptype c of
        Inl e \<Rightarrow> Inl e
      | Inr component \<Rightarrow>
          (case ldeviceId (layout component) of
             Some d \<Rightarrow> parseLayout now ctx dmapps grouptype (pushKey d component groupLayout) skipped cs
           | None \<Rightarrow> parseLayout now ctx dmapps grouptype groupLayout (skipped @ [qcomponentId c]) cs))"

text \<open>\<open>LayoutGenerator.convertLayoutToPercentages\<close> and \<open>truncateLayoutSizes\<close>.\<close>

definition regionExtent :: "DeviceDocument \<Rightarrow> ComponentDocument \<Rightarrow> jserror + jsnum \<times> jsnum" where
  "regionExtent device cmp =
     (case regionId (layout cmp) of
        None \<Rightarrow> Inr (displayWidth (caps device), displayHeight (caps device))
      | Some rid \<Rightarrow>
          (case regions device of
             None \<Rightarrow> Inl TypeError
           | Some rs \<Rightarrow>
               Inr (foldl (\<lambda>wh region. if rregionId region = rid
                                         then (rdisplayWidth region, rdisplayHeight region) else wh)
                      (displayWidth (caps device), displayHeight (caps device)) rs)))"

fun percentOf :: "jsnum \<Rightarrow> coord \<Rightarrow> coord" where
  "percentOf whole (Px v) = Pct (jdiv (jmul (Num 100) v) whole)"
| "percentOf whole (Pct v) = Pct v"

fun roundCoord :: "coord \<Rightarrow> coord" where
  "roundCoord (Px v) = Px (jround v)"
| "roundCoord (Pct v) = Pct v"

definition convertComponent :: "jsnum \<times> jsnum \<Rightarrow> ComponentDocument \<Rightarrow> ComponentDocument" where
  "convertComponent wh cmp =
     cmp\<lparr>layout := (layout cmp)\<lparr>
       lsize := map_option (\<lambda>sz. \<lparr>lwidth = percentOf (fst wh) (lwidth sz),
                                  lheight = percentOf (snd wh) (lheight sz)\<rparr>) (lsize (layout cmp)),
       position := map_option (\<lambda>ps. \<lparr>lx = percentOf (fst wh) (lx ps),
                                     ly = percentOf (snd wh) (ly ps)\<rparr>) (position (layout cmp))\<rparr>\<rparr>"

definition truncateComponent :: "ComponentDocument \<Rightarrow> ComponentDocument" where
  "truncateComponent cmp =
     cmp\<lparr>layout := (layout cmp)\<lparr>
       lsize := map_option (\<lambda>sz. \<lparr>lwidth = roundCoord (lwidth sz),
                                  lheight = roundCoord (lheight sz)\<rparr>) (lsize (layout cmp)),
       position := map_option (\<lambda>ps. \<lparr>lx = roundCoord (lx ps), ly = roundCoord (ly ps)\<rparr>)
                     (position (layout cmp))\<rparr>\<rparr>"

fun mapE :: "('a \<Rightarrow> jserror + 'b) \<Rightarrow> 'a list \<Rightarrow> jserror + 'b list" where
  "mapE f [] = Inr []"
| "mapE f (a # as) =
     (case f a of
        Inl e \<Rightarrow> Inl e
      | Inr b \<Rightarrow> (case mapE f as of Inl e \<Rightarrow> Inl e | Inr bs \<Rightarrow> Inr (b # bs)))"

definition unitsDevice :: "bool \<Rightarrow> Context \<Rightarrow> DeviceLayout \<Rightarrow> jserror + DeviceLayout" where
  "unitsDevice percent ctx dev =
     (case getDevice ctx (ldDeviceId dev) of
        None \<Rightarrow> Inl TypeError
      | Some device \<Rightarrow>
          (case mapE (\<lambda>cmp. case regionExtent device cmp of
                               Inl e \<Rightarrow> Inl e
                             | Inr wh \<Rightarrow> Inr (if percent then convertComponent wh cmp
                                               else truncateComponent cmp))
                  (ldComponents dev) of
             Inl e \<Rightarrow> Inl e
           | Inr cs \<Rightarrow> Inr (dev\<lparr>ldComponents := cs\<rparr>)))"

definition convertLayoutToPercentages :: "Context \<Rightarrow> ContextLayout \<Rightarrow> jserror + ContextLayout" where
  "convertLayoutToPercentages ctx lay =
     (case mapE (unitsDevice True ctx) (cdevices lay) of
        Inl e \<Rightarrow> Inl e
      | Inr ds \<Rightarrow> Inr (lay\<lparr>cdevices := ds\<rparr>))"

definition truncateLayoutSizes :: "Context \<Rightarrow> ContextLayout \<Rightarrow> jserror + ContextLayout" where
  "truncateLayoutSizes ctx lay =
     (case mapE (unitsDevice False ctx) (cdevices lay) of
        Inl e \<Rightarrow> Inl e
      | Inr ds \<Rightarrow> Inr (lay\<lparr>cdevices := ds\<rparr>))"

text \<open>
  \<open>LayoutGenerator.postProcess\<close>: the instance id, the purge of a \<open>regionId\<close> equal to
  the \<open>deviceId\<close>, then the unit conversion.
\<close>

definition purgeRegion :: "Context \<Rightarrow> ComponentDocument \<Rightarrow> ComponentDocument" where
  "purgeRegion ctx cmp =
     cmp\<lparr>layout := (layout cmp)\<lparr>
       instanceId := Some (componentInstanceId (ctxId ctx) (strOf (DMAppId cmp))
                             (strOf (ldeviceId (layout cmp))) (componentId cmp)),
       regionId := (if ldeviceId (layout cmp) = regionId (layout cmp) then None
                    else regionId (layout cmp))\<rparr>\<rparr>"

definition postProcess :: "Context \<Rightarrow> ContextLayout \<Rightarrow> jserror + ContextLayout" where
  "postProcess ctx lay =
     (let lay' = lay\<lparr>cdevices :=
                   map (\<lambda>dev. dev\<lparr>ldComponents := map (purgeRegion ctx) (ldComponents dev)\<rparr>)
                     (cdevices lay)\<rparr>
      in if percentCoords ctx = Some True then convertLayoutToPercentages ctx lay'
         else truncateLayoutSizes ctx lay')"

text \<open>
  \<open>LayoutGenerator.runLayout\<close> for one device group. The packer
  (\<open>LayoutPacker.packRegions\<close>) is the parameter \<open>packRegions\<close>.
\<close>

definition runLayout ::
  "(PackerRegion list \<Rightarrow> PackerRectangle list \<Rightarrow> bool \<Rightarrow> Packing) \<Rightarrow> int \<Rightarrow> Context \<Rightarrow> DMApp list \<Rightarrow>
     ContextLayout \<Rightarrow> string list \<Rightarrow> string \<Rightarrow> string \<Rightarrow> jserror + ContextLayout" where
  "runLayout packRegions now ctx dmapps lay devicelist groupname grouptype =
     (case buildRegionNodeTree ctx devicelist of
        Inl e \<Rightarrow> Inl e
      | Inr regs \<Rightarrow>
          if regs = [] then Inr lay
          else
            (case buildComponentList ctx dmapps devicelist regs grouptype of
               Inl e \<Rightarrow> Inl e
             | Inr clist \<Rightarrow>
                 if componentlist clist = [] then
                   Inr (if allIds clist \<noteq> []
                        then lay\<lparr>cnotPlaced := cnotPlaced lay @
                               [\<lparr>sgroup = groupname, status = ''incompatible'',
                                 scomponents = allIds clist\<rparr>]\<rparr>
                        else lay)
                 else
                   (let packed = packRegions regs (componentlist clist) (grouptype = ''mixed'');
                        nodevice = unionJs (differenceJs (allIds clist)
                                              (map qcomponentId (componentlist clist)))
                                     (pnoDevice packed);
                        lay1 = (if nodevice \<noteq> []
                                then lay\<lparr>cnotPlaced := cnotPlaced lay @
                                       [\<lparr>sgroup = groupname, status = ''incompatible'',
                                         scomponents = nodevice\<rparr>]\<rparr>
                                else lay);
                        lay2 = (if pnotPlaced packed \<noteq> []
                                then lay1\<lparr>cnotPlaced := cnotPlaced lay1 @
                                       [\<lparr>sgroup = groupname, status = ''skipped'',
                                         scomponents = pnotPlaced packed\<rparr>]\<rparr>
                                else lay1)
                    in if playout packed = [] then Inr lay2
                       else
                         (case parseLayout now ctx dmapps grouptype [] [] (playout packed) of
                            Inl e \<Rightarrow> Inl e
                          | Inr (groupLayout, skipped) \<Rightarrow>
                              (let lay3 = lay2\<lparr>cdevices := cdevices lay2 @
                                            map (\<lambda>kv. \<lparr>ldDeviceId = fst kv, ldComponents = snd kv\<rparr>)
                                              (keyOrder groupLayout)\<rparr>;
                                   lay4 = (if skipped \<noteq> []
                                           then lay3\<lparr>cnotPlaced := cnotPlaced lay3 @
                                                  [\<lparr>sgroup = groupname, status = ''skipped'',
                                                    scomponents = skipped\<rparr>]\<rparr>
                                           else lay3)
                               in postProcess ctx lay4)))))"

section \<open>LayoutPacker: sizing helpers and the dependency gate\<close>

text \<open>\<open>Util.isEqualwithPrecision\<close>: both differences are strict.\<close>

definition isEqualwithPrecision :: "jsnum \<Rightarrow> jsnum \<Rightarrow> jsnum \<Rightarrow> bool" where
  "isEqualwithPrecision f1 f2 precision =
     (let epsilon = precision; diff = jsub f1 f2
      in jlt diff epsilon \<and> jgt diff (jmul (Num (- 1)) epsilon))"

text \<open>
  \<open>PackerUtils.directed_aspect_correct_\<close>, the variant with a minimum size that
  \<open>aspect_adjust_with_split\<close> calls: the non-primary leg follows the aspect ratio,
  and both legs are truncated to whole pixels.
\<close>

definition directed_aspect_correct' ::
  "jsnum \<Rightarrow> jsnum \<Rightarrow> jsnum \<Rightarrow> jsnum \<Rightarrow> string \<Rightarrow> jsnum \<times> jsnum \<Rightarrow> jsnum \<times> jsnum" where
  "directed_aspect_correct' wd ht asp mrg primaryDir minsize =
     (let m = jmul (Num 2) mrg;
          h0 = jsub ht m;
          w0 = jsub wd m;
          (w, h) =
            (if primaryDir = ''width'' then
               (let h1 = jmul w0 asp
                in if jgt (jadd h1 m) ht then (jdiv (jsub ht m) asp, jsub ht m) else (w0, h1))
             else
               (let w1 = jdiv h0 asp
                in if jgt (jadd w1 m) wd then (jsub wd m, jmul (jsub wd m) asp)
                   else if jlt w1 (fst minsize)
                   then (jsub (fst minsize) m, jmul (jsub (fst minsize) m) asp)
                   else (w1, h0)))
      in (jtrunc (jadd w m), jtrunc (jadd h m)))"

text \<open>
  \<open>LayoutPacker.getDivide\<close>: the leg along which a node is cut down to a size
  (both given as width and height).
\<close>

definition getDivide :: "jsnum \<times> jsnum \<Rightarrow> jsnum \<times> jsnum \<Rightarrow> string" where
  "getDivide nodeToSplit splitSize =
     (let dw = jsub (fst nodeToSplit) (fst splitSize);
          dh = jsub (snd nodeToSplit) (snd splitSize)
      in if jlt dw MinDimension \<and> jlt dh MinDimension then ''none''
         else if jge dw dh \<and> jgt dw MinDimension then ''width''
         else if jgt dh MinDimension then ''height''
         else ''none'')"


section \<open>Notions used in the statements and proofs\<close>

text \<open>
  The state of \<open>manageHiddenComps\<close>: a device entry holds a component, and every entry
  is either a component of the new layout or a shared object whose stored layout has
  the size \<open>{-1, -1}\<close>.
\<close>

definition hasEntry :: "string \<Rightarrow> string \<Rightarrow> hiddenState \<Rightarrow> bool" where
  "hasEntry devId compId st =
     (\<exists>d \<in> set (hdevs st). fst d = devId \<and> (\<exists>e \<in> set (snd d). entryId e = compId))"

definition minusOne :: LayoutSize where
  "minusOne = \<lparr>lwidth = Px (Num (- 1)), lheight = Px (Num (- 1))\<rparr>"

definition entryOk :: "DeviceLayout list \<Rightarrow> (string \<rightharpoonup> ComponentDocument) \<Rightarrow> string \<Rightarrow> entry \<Rightarrow> bool" where
  "entryOk devs0 store devId e =
     (case e of
        Own c \<Rightarrow> (\<exists>d0 \<in> set devs0. ldDeviceId d0 = devId \<and> c \<in> set (ldComponents d0))
      | Shared cid b \<Rightarrow> (\<exists>c. store cid = Some c \<and> componentId c = cid \<and> lsize (layout c) = Some minusOne))"

definition stateOk :: "DeviceLayout list \<Rightarrow> hiddenState \<Rightarrow> bool" where
  "stateOk devs0 st = (\<forall>d \<in> set (hdevs st). \<forall>e \<in> set (snd d). entryOk devs0 (hstore st) (fst d) e)"

text \<open>
  The condition under which \<open>manageHiddenComps\<close> carries a component over to a
  device: the new layout lists it as not placed with status \<open>incompatible\<close> or
  \<open>skipped\<close>; a device entry of the previous layout with that id, for a device the
  context still holds, has it as a started component with a layout size; and the
  DMApp holds it with \<open>stopTime\<close> null. \<open>provOk\<close>: every shared entry of the state
  sits on a device for which a condition \<open>K\<close> holds.
\<close>

definition carries :: "Context \<Rightarrow> DMApp \<Rightarrow> GeneratedLayout \<Rightarrow> GeneratedLayout \<Rightarrow> string \<Rightarrow> string \<Rightarrow> bool" where
  "carries ctx dmapp prev newLayout compId devId =
     (list_ex (\<lambda>np. (status np = ''incompatible'' \<or> status np = ''skipped'')
                    \<and> compId \<in> set (scomponents np)) (notPlaced newLayout)
      \<and> hasDevice ctx devId
      \<and> list_ex (\<lambda>dev. ldDeviceId dev = devId \<and>
                    (case find (\<lambda>c. componentId c = compId) (ldComponents dev) of
                       None \<Rightarrow> False
                     | Some cmp \<Rightarrow> startTime cmp \<noteq> None \<and> lsize (layout cmp) \<noteq> None))
           (glDevices prev)
      \<and> (case getComponent dmapp compId of
            None \<Rightarrow> False
          | Some latest \<Rightarrow> stopTime latest = None))"

definition provOk :: "(string \<Rightarrow> string \<Rightarrow> bool) \<Rightarrow> hiddenState \<Rightarrow> bool" where
  "provOk K st =
     (\<forall>d \<in> set (hdevs st). \<forall>e \<in> set (snd d).
        (case e of Own c \<Rightarrow> True | Shared cid b \<Rightarrow> K cid (fst d)))"

text \<open>The state holds an entry on a device.\<close>

definition keepsEntry :: "string \<Rightarrow> entry \<Rightarrow> hiddenState \<Rightarrow> bool" where
  "keepsEntry devId e st = (\<exists>d \<in> set (hdevs st). fst d = devId \<and> e \<in> set (snd d))"

text \<open>A dictionary of lists holds a value under a key.\<close>

definition holds :: "string \<Rightarrow> 'v \<Rightarrow> (string \<times> 'v list) list \<Rightarrow> bool" where
  "holds k v kvs = (\<exists>kv \<in> set kvs. fst kv = k \<and> v \<in> set (snd kv))"


text \<open>
  Notions for the order that the sorter produces. A candidate's resolved preferred
  size is proper when both legs are numbers. The key of a candidate lists what the
  comparison function looks at, in its order: priority (larger first), area, width
  and height of the resolved size (larger first), then the anchors: no anchor, then
  the rank of the anchors in the order top, right, left, bottom.
\<close>

definition properSize :: "'a Box_scheme \<Rightarrow> PackerRectangle \<Rightarrow> bool" where
  "properSize region0 r =
     (case rectSize (qconstraints r) region0 of (Num w, Num h) \<Rightarrow> True | _ \<Rightarrow> False)"


section \<open>Example data\<close>

text \<open>A context with one communal television, 1920 by 1080, that declares no region.\<close>

definition ex_caps :: Capabilities where
  "ex_caps = \<lparr>displayWidth = Num 1920, displayHeight = Num 1080, displayResolution = None,
     concurrentAudio = Some (Num 1), concurrentVideo = Some (Num 1),
     ctouchInteraction = None, communalDevice = True\<rparr>"

definition ex_tv :: DeviceDocument where
  "ex_tv = \<lparr>deviceId = ''tv'', caps = ex_caps, regions = None, dgroup = ''lounge''\<rparr>"

definition ex_ctx :: Context where
  "ex_ctx = \<lparr>ctxId = ''ctx'', devices = [ex_tv], percentCoords = None\<rparr>"

definition ex_config :: "int \<Rightarrow> ConstraintConfig" where
  "ex_config p = defaultComponentConstraint\<lparr>priority := p\<rparr>"

definition ex_layout :: ComponentLayout where
  "ex_layout = \<lparr>position = None, lsize = None, zDepth = None, instanceId = None,
     lpriority = None, visible = Some True, ldeviceId = None, regionId = None,
     ltimestamp = None, lmode = None\<rparr>"

text \<open>A started, visible component bound to the constraint \<open>con\<close>.\<close>

definition ex_comp :: "string \<Rightarrow> string \<Rightarrow> ComponentDocument" where
  "ex_comp cid con = \<lparr>componentId = cid, cconstraintId = Some con, config = [], parameters = [],
     startTime = Some 1, stopTime = None, layout = ex_layout, priorityOverrides = None,
     cprefSize = None, DMAppId = None, contextId = None\<rparr>"

text \<open>A DMApp with the single component \<open>cid\<close> whose constraint \<open>k\<close> has priority \<open>p\<close>.\<close>

definition ex_dmapp :: "string \<Rightarrow> int \<Rightarrow> DMApp" where
  "ex_dmapp cid p = \<lparr>dmappId = ''app'', components = [ex_comp cid ''k''],
     constraints = [\<lparr>constraintId = ''k'', communal = ex_config p, personal = ex_config p\<rparr>]\<rparr>"

definition ex_empty :: ContextLayout where
  "ex_empty = \<lparr>cdevices = [], cnotPlaced = [], cnoDevice = []\<rparr>"





text \<open>Candidate rectangles of equal priority and equal preferred size, 400 by 300.\<close>

definition ex_box :: PackerRegion where
  "ex_box = deviceNode ''tv'' ex_tv"

definition ex_constraint :: "int \<Rightarrow> string list option \<Rightarrow> LayoutConstraint" where
  "ex_constraint p anc = \<lparr>kaspect = Num 0,
     kprefSize = \<lparr>width = Num 400, height = Num 300, mode = Some ''px'',
       widthInches = None, heightInches = None\<rparr>,
     kminSize = absoluteMinSize, kvalid = [''tv''], kpriority = p, kaudio = None, kvideo = None,
     kmargin = Num 0, kanchor = anc, kdependencies = []\<rparr>"

definition ex_rect :: "string \<Rightarrow> LayoutConstraint \<Rightarrow> PackerRectangle" where
  "ex_rect cid k = \<lparr>qcomponentId = cid, qDMAppId = ''app'', qconstraints = k,
     qpersonalconstraints = None, qx0 = NaN, qy0 = NaN, qwidth = NaN, qheight = NaN,
     qdeviceId = None, qregionId = None\<rparr>"

definition ex6_anchored :: PackerRectangle where
  "ex6_anchored = ex_rect ''title'' (ex_constraint 5 (Some [''top'']))"

definition ex6_free :: PackerRectangle where
  "ex6_free = ex_rect ''chat'' (ex_constraint 5 None)"


text \<open>
  A candidate whose preferred size is given in inches: the television declares no
  display resolution, so its resolved size is not a number.
\<close>

definition ex6_inch :: PackerRectangle where
  "ex6_inch = ex_rect ''logo'' ((ex_constraint 5 None)\<lparr>kprefSize :=
     \<lparr>width = Num 4, height = Num 3, mode = Some ''inches'',
      widthInches = Some (Num 4), heightInches = Some (Num 3)\<rparr>\<rparr>)"

text \<open>
  Previous and new layouts for the carry-over rules: \<open>menu\<close> is initialised but not
  started.
\<close>

definition ex8_inited :: ComponentDocument where
  "ex8_inited = (ex_comp ''menu'' ''k'')\<lparr>startTime := None,
     layout := ex_layout\<lparr>visible := Some False\<rparr>\<rparr>"

definition ex8_prev :: GeneratedLayout where
  "ex8_prev = \<lparr>glContextId = ''ctx'',
     glDevices = [\<lparr>ldDeviceId = ''tv'', ldComponents = [ex8_inited]\<rparr>],
     notPlaced = [], timestamp = 1\<rparr>"

definition ex8_new :: GeneratedLayout where
  "ex8_new = \<lparr>glContextId = ''ctx'', glDevices = [], notPlaced = [], timestamp = 2\<rparr>"

definition ex8_dmapp :: DMApp where
  "ex8_dmapp = \<lparr>dmappId = ''app'', components = [ex8_inited], constraints = []\<rparr>"

definition ex7_size :: LayoutSize where
  "ex7_size = \<lparr>lwidth = Px (Num 640), lheight = Px (Num 360)\<rparr>"

text \<open>
  \<open>clip\<close> as a layout run stored it on the television (started, with a size), and
  as a layout simulation stored it when it was initialised (\<open>persistSimulation\<close>:
  \<open>startTime\<close> and \<open>stopTime\<close> null, a layout that holds the instance id only).
\<close>

definition ex7_started :: ComponentDocument where
  "ex7_started = (ex_comp ''clip'' ''main'')\<lparr>layout := ex_layout\<lparr>lsize := Some ex7_size\<rparr>\<rparr>"

definition ex7_inited :: ComponentDocument where
  "ex7_inited = \<lparr>componentId = ''clip'', cconstraintId = Some ''main'', config = [], parameters = [],
     startTime = None, stopTime = None,
     layout = \<lparr>position = None, lsize = None, zDepth = None,
       instanceId = Some (componentInstanceId ''ctx'' ''app'' ''tv'' ''clip''),
       lpriority = None, visible = None, ldeviceId = None, regionId = None,
       ltimestamp = None, lmode = None\<rparr>,
     priorityOverrides = None, cprefSize = None, DMAppId = None, contextId = None\<rparr>"

definition ex7_prev :: GeneratedLayout where
  "ex7_prev = \<lparr>glContextId = ''ctx'',
     glDevices = [\<lparr>ldDeviceId = ''tv'', ldComponents = [ex7_started]\<rparr>],
     notPlaced = [], timestamp = 1\<rparr>"

definition ex7_simulated :: GeneratedLayout where
  "ex7_simulated = \<lparr>glContextId = ''ctx'',
     glDevices = [\<lparr>ldDeviceId = ''tv'', ldComponents = [ex7_inited]\<rparr>],
     notPlaced = [], timestamp = 1\<rparr>"

text \<open>
  The DMApp after one transaction has started \<open>clip\<close> and bound it to the
  constraint \<open>hidden\<close> of priority 0 (it was initialised under \<open>main\<close>), and the
  new layout of that state: nothing is placed and \<open>clip\<close> is reported as
  incompatible.
\<close>

definition ex7_dmapp :: DMApp where
  "ex7_dmapp = \<lparr>dmappId = ''app'', components = [ex_comp ''clip'' ''hidden''],
     constraints = [\<lparr>constraintId = ''main'', communal = ex_config 5, personal = ex_config 5\<rparr>,
                    \<lparr>constraintId = ''hidden'', communal = ex_config 0, personal = ex_config 0\<rparr>]\<rparr>"

definition ex7_hidden :: Skipped where
  "ex7_hidden = \<lparr>sgroup = ''lounge'', status = ''incompatible'', scomponents = [''clip'']\<rparr>"

definition ex7_new :: GeneratedLayout where
  "ex7_new = \<lparr>glContextId = ''ctx'', glDevices = [], notPlaced = [ex7_hidden], timestamp = 2\<rparr>"

text \<open>
  The packing of the single component \<open>clip\<close> over the whole television: the root
  node of a device without regions carries the device id as its region id.
\<close>

definition ex10_rect :: PackerRectangle where
  "ex10_rect = \<lparr>qcomponentId = ''clip'', qDMAppId = ''app'',
     qconstraints = toConstraint (ex_comp ''clip'' ''k'') (ex_config 5) [''tv''] 5,
     qpersonalconstraints = None, qx0 = Num 0, qy0 = Num 0, qwidth = Num 1920, qheight = Num 1080,
     qdeviceId = Some ''tv'', qregionId = Some ''tv''\<rparr>"

definition ex10_packer :: "PackerRegion list \<Rightarrow> PackerRectangle list \<Rightarrow> bool \<Rightarrow> Packing" where
  "ex10_packer regs rects mixed = \<lparr>playout = [ex10_rect], pnotPlaced = [], pnoDevice = []\<rparr>"




section \<open>Auxiliary lemmas\<close>

lemma find_SomeD: "find p xs = Some a \<Longrightarrow> p a \<and> a \<in> set xs"
  by (induction xs) (auto split: if_splits)

lemma getComponent_id: "getComponent dmapp i = Some c \<Longrightarrow> componentId c = i"
  unfolding getComponent_def by (drule find_SomeD) simp

lemma kpriority_toConstraint: "kpriority (toConstraint c k v p) = p"
  by (simp add: toConstraint_def)


lemma ex_regions: "buildRegionNodeTree ex_ctx [''tv''] = Inr [deviceNode ''tv'' ex_tv]"
  by (simp add: ex_ctx_def getDevice_def ex_tv_def)

subsection \<open>Folds\<close>

lemma foldl_invariant:
  "P s \<Longrightarrow> (\<And>s x. x \<in> set xs \<Longrightarrow> P s \<Longrightarrow> P (f s x)) \<Longrightarrow> P (foldl f s xs)"
  by (induction xs arbitrary: s) auto

lemma foldl_establish:
  "x \<in> set xs \<Longrightarrow> (\<And>s. Q (f s x)) \<Longrightarrow> (\<And>s y. Q s \<Longrightarrow> Q (f s y)) \<Longrightarrow> Q (foldl f s xs)"
proof (induction xs arbitrary: s)
  case Nil
  then show ?case by simp
next
  case (Cons a xs)
  show ?case
  proof (cases "x = a")
    case True
    have "Q (f s a)" using Cons.prems(2) True by simp
    then have "Q (foldl f (f s a) xs)"
      by (rule foldl_invariant) (use Cons.prems(3) in auto)
    then show ?thesis by simp
  next
    case False
    then have "x \<in> set xs" using Cons.prems(1) by simp
    then show ?thesis using Cons.IH Cons.prems by simp
  qed
qed

subsection \<open>The state of manageHiddenComps\<close>

lemma set_updateFirst:
  "set (updateFirst p f xs) \<subseteq> set xs \<union> f ` {x \<in> set xs. p x}"
  by (induction xs) auto

lemma updateFirst_found:
  "find p xs = Some a \<Longrightarrow> f a \<in> set (updateFirst p f xs)"
  by (induction xs) (auto split: if_splits)

lemma updateFirst_keeps:
  "a \<in> set xs \<Longrightarrow> a \<in> set (updateFirst p f xs) \<or> (p a \<and> f a \<in> set (updateFirst p f xs))"
  by (induction xs) auto

lemma hasEntryI:
  "d \<in> set (hdevs st) \<Longrightarrow> fst d = devId \<Longrightarrow> e \<in> set (snd d) \<Longrightarrow> entryId e = compId
   \<Longrightarrow> hasEntry devId compId st"
  unfolding hasEntry_def by blast

lemma hasEntry_pushHidden:
  "hasEntry devId compId (st\<lparr>hstore := s', hdevs := pushHidden devId compId latest (hdevs st)\<rparr>)"
proof (cases "find (\<lambda>d. fst d = devId) (hdevs st)")
  case None
  show ?thesis
    by (rule hasEntryI[where d="(devId, [Shared compId latest])" and e="Shared compId latest"])
       (simp_all add: pushHidden_def None)
next
  case (Some t)
  note t = find_SomeD[OF Some]
  show ?thesis
  proof (cases "find (\<lambda>c. entryId c = compId) (snd t)")
    case None
    have mem: "(fst t, snd t @ [Shared compId latest]) \<in> set (updateFirst (\<lambda>d. fst d = devId) (\<lambda>d. (fst d, snd d @ [Shared compId latest])) (hdevs st))"
      using updateFirst_found[OF Some] by fast
    show ?thesis
      by (rule hasEntryI[where d="(fst t, snd t @ [Shared compId latest])" and e="Shared compId latest"])
         (use mem t in \<open>simp_all add: pushHidden_def None Some\<close>)
  next
    case (Some e)
    note e = find_SomeD[OF Some]
    show ?thesis
      by (rule hasEntryI[where d=t and e=e])
         (use t e in \<open>simp_all add: pushHidden_def Some \<open>find (\<lambda>d. fst d = devId) (hdevs st) = Some t\<close>\<close>)
  qed
qed

lemma hasEntry_pushHidden_mono:
  assumes "hasEntry devId compId st"
  shows "hasEntry devId compId (st\<lparr>hstore := s', hdevs := pushHidden devId' compId' latest (hdevs st)\<rparr>)"
proof -
  from assms obtain d e where d: "d \<in> set (hdevs st)" "fst d = devId" "e \<in> set (snd d)" "entryId e = compId"
    by (auto simp: hasEntry_def)
  let ?f = "\<lambda>d. (fst d, snd d @ [Shared compId' latest])"
  let ?xs = "updateFirst (\<lambda>d. fst d = devId') ?f (hdevs st)"
  have "d \<in> set ?xs \<or> ?f d \<in> set ?xs" using updateFirst_keeps[OF d(1)] by blast
  then obtain d' where d': "d' \<in> set ?xs" "fst d' = devId" "e \<in> set (snd d')"
  proof
    assume "d \<in> set ?xs" then show ?thesis using d that by blast
  next
    assume "?f d \<in> set ?xs" then show ?thesis using d that[of "?f d"] by simp
  qed
  show ?thesis
  proof (cases "find (\<lambda>d. fst d = devId') (hdevs st)")
    case None
    show ?thesis
      by (rule hasEntryI[where d=d and e=e]) (use d in \<open>simp_all add: pushHidden_def None\<close>)
  next
    case (Some t)
    show ?thesis
    proof (cases "find (\<lambda>c. entryId c = compId') (snd t)")
      case None
      show ?thesis
        by (rule hasEntryI[where d=d' and e=e])
           (use d d' in \<open>simp_all add: pushHidden_def None \<open>find (\<lambda>d. fst d = devId') (hdevs st) = Some t\<close>\<close>)
    next
      case (Some e')
      show ?thesis
        by (rule hasEntryI[where d=d and e=e])
           (use d in \<open>simp_all add: pushHidden_def Some \<open>find (\<lambda>d. fst d = devId') (hdevs st) = Some t\<close>\<close>)
    qed
  qed
qed

lemma hasEntry_hiddenStep_mono:
  "hasEntry devId compId st \<Longrightarrow> hasEntry devId compId (hiddenStep ctx dmapp compId' st dev')"
  unfolding hiddenStep_def
  by (auto split: option.splits intro: hasEntry_pushHidden_mono)

lemma hasEntry_hiddenStep:
  assumes "find (\<lambda>c. componentId c = compId) (ldComponents dev) = Some cmp"
    and "hasDevice ctx (ldDeviceId dev)"
    and "getComponent dmapp compId = Some latest"
    and "stopTime latest = None" and "startTime cmp \<noteq> None" and "lsize (layout cmp) \<noteq> None"
  shows "hasEntry (ldDeviceId dev) compId (hiddenStep ctx dmapp compId st dev)"
proof -
  have "componentId cmp = compId" using find_SomeD[OF assms(1)] by simp
  then show ?thesis using assms
    unfolding hiddenStep_def by (auto intro: hasEntry_pushHidden)
qed

lemma entryOk_store_upd:
  assumes "entryOk devs0 store devId e" and "componentId c = cid" and "lsize (layout c) = Some minusOne"
  shows "entryOk devs0 (store(cid \<mapsto> c)) devId e"
  using assms by (cases e) (auto simp: entryOk_def)

lemma stateOk_pushHidden:
  assumes ok: "stateOk devs0 st" and c: "componentId c = compId" "lsize (layout c) = Some minusOne"
  shows "stateOk devs0 (st\<lparr>hstore := (hstore st)(compId \<mapsto> c), hdevs := pushHidden devId compId latest (hdevs st)\<rparr>)"
proof -
  let ?store = "(hstore st)(compId \<mapsto> c)"
  let ?f = "\<lambda>d. (fst d, snd d @ [Shared compId latest])"
  have old: "\<forall>d \<in> set (hdevs st). \<forall>e \<in> set (snd d). entryOk devs0 ?store (fst d) e"
    using ok c by (auto simp: stateOk_def intro: entryOk_store_upd)
  have new: "entryOk devs0 ?store d' (Shared compId latest)" for d'
    using c by (simp add: entryOk_def)
  have "\<forall>d \<in> set (pushHidden devId compId latest (hdevs st)). \<forall>e \<in> set (snd d). entryOk devs0 ?store (fst d) e"
  proof (intro ballI)
    fix d e assume d: "d \<in> set (pushHidden devId compId latest (hdevs st))" and e: "e \<in> set (snd d)"
    have "d \<in> set (hdevs st) \<or> (\<exists>d0 \<in> set (hdevs st). d = ?f d0) \<or> d = (devId, [Shared compId latest])"
      using d set_updateFirst[of "\<lambda>d. fst d = devId" ?f "hdevs st"]
      by (auto simp: pushHidden_def split: option.splits)
    then consider (a) "d \<in> set (hdevs st)"
      | (b) d0 where "d0 \<in> set (hdevs st)" "d = ?f d0"
      | (c) "d = (devId, [Shared compId latest])" by blast
    then show "entryOk devs0 ?store (fst d) e"
    proof cases
      case a
      then show ?thesis using old e by blast
    next
      case b
      then have "e \<in> set (snd d0) \<or> e = Shared compId latest" using e by auto
      then show ?thesis using old new b by auto
    next
      case c
      then show ?thesis using new e by simp
    qed
  qed
  then show ?thesis by (simp add: stateOk_def)
qed

lemma stateOk_hiddenStep:
  assumes "stateOk devs0 st"
  shows "stateOk devs0 (hiddenStep ctx dmapp compId st dev)"
proof (cases "find (\<lambda>c. componentId c = compId) (ldComponents dev)")
  case None
  then show ?thesis using assms by (simp add: hiddenStep_def)
next
  case (Some cmp)
  show ?thesis
  proof (cases "getComponent dmapp (componentId cmp)")
    case None
    then show ?thesis using assms Some by (simp add: hiddenStep_def)
  next
    case (Some latest)
    let ?c = "latest\<lparr>DMAppId := Some (dmappId dmapp), contextId := Some (ctxId ctx),
                layout := emptyLayout (ctxId ctx) (dmappId dmapp) (ldDeviceId dev) compId\<rparr>"
    have id: "componentId cmp = compId \<Longrightarrow> componentId ?c = compId"
      using getComponent_id[OF Some] by simp
    have sz: "lsize (layout ?c) = Some minusOne"
      by (simp add: emptyLayout_def minusOne_def)
    have "componentId cmp = compId \<Longrightarrow>
          stateOk devs0 (st\<lparr>hstore := (hstore st)(compId \<mapsto> ?c),
                            hdevs := pushHidden (ldDeviceId dev) compId latest (hdevs st)\<rparr>)"
      using stateOk_pushHidden[OF assms _ sz] id by blast
    then show ?thesis
      using assms Some \<open>find (\<lambda>c. componentId c = compId) (ldComponents dev) = Some cmp\<close>
      by (simp add: hiddenStep_def)
  qed
qed

lemma hiddenEntry_invariants:
  assumes "stateOk devs0 st"
  shows "stateOk devs0 (hiddenEntry ctx dmapp prevDevices st np)"
  unfolding hiddenEntry_def using assms
  by (auto intro!: foldl_invariant[where P="stateOk devs0"] stateOk_hiddenStep)

lemma hiddenEntry_mono:
  assumes "hasEntry devId compId st"
  shows "hasEntry devId compId (hiddenEntry ctx dmapp prevDevices st np)"
  unfolding hiddenEntry_def using assms
  by (auto intro!: foldl_invariant[where P="hasEntry devId compId"] hasEntry_hiddenStep_mono)

lemma hiddenEntry_establish:
  assumes "status np = ''incompatible'' \<or> status np = ''skipped''"
    and "compId \<in> set (scomponents np)" and "dev \<in> set prevDevices"
    and "find (\<lambda>c. componentId c = compId) (ldComponents dev) = Some cmp"
    and "hasDevice ctx (ldDeviceId dev)"
    and "getComponent dmapp compId = Some latest"
    and "stopTime latest = None" and "startTime cmp \<noteq> None" and "lsize (layout cmp) \<noteq> None"
  shows "hasEntry (ldDeviceId dev) compId (hiddenEntry ctx dmapp prevDevices st np)"
proof -
  have inner: "hasEntry (ldDeviceId dev) compId (foldl (hiddenStep ctx dmapp compId) s prevDevices)" for s
    by (rule foldl_establish[OF assms(3)])
       (use assms in \<open>auto intro: hasEntry_hiddenStep hasEntry_hiddenStep_mono\<close>)
  have "hasEntry (ldDeviceId dev) compId
          (foldl (\<lambda>st' compId. foldl (hiddenStep ctx dmapp compId) st' prevDevices) st (scomponents np))"
    by (rule foldl_establish[OF assms(2)])
       (auto intro: inner foldl_invariant[where P="hasEntry (ldDeviceId dev) compId"] hasEntry_hiddenStep_mono)
  then show ?thesis using assms(1) by (auto simp: hiddenEntry_def)
qed

subsection \<open>Assembling and post-processing the layout\<close>

lemma layoutComponent_fields:
  assumes "layoutComponent now ctx dmapps grouptype c = Inr cmp"
  shows "componentId cmp = qcomponentId c \<and> ldeviceId (layout cmp) = qdeviceId c
         \<and> regionId (layout cmp) = (case qregionId c of Some r \<Rightarrow> Some r | None \<Rightarrow> qdeviceId c)"
  using assms unfolding layoutComponent_def
  by (auto split: option.splits if_splits sum.splits dest: getComponent_id)

lemma holds_Nil: "\<not> holds k v []"
  by (simp add: holds_def)

lemma holds_Cons: "holds k v (kv # kvs) = ((fst kv = k \<and> v \<in> set (snd kv)) \<or> holds k v kvs)"
  by (auto simp: holds_def)

lemma holds_pushKey: "holds k v (pushKey k v kvs)"
proof (induction kvs)
  case Nil
  show ?case by (simp add: holds_Cons)
next
  case (Cons a kvs)
  then show ?case by (cases a) (simp add: holds_Cons)
qed

lemma holds_pushKey_mono: "holds k v kvs \<Longrightarrow> holds k v (pushKey k' v' kvs)"
proof (induction kvs)
  case Nil
  then show ?case by (simp add: holds_Nil)
next
  case (Cons a kvs)
  then show ?case by (cases a) (auto simp add: holds_Cons)
qed

lemma parseLayout_mono:
  "parseLayout now ctx dmapps gt gl sk cs = Inr (gl', sk') \<Longrightarrow> holds k v gl \<Longrightarrow> holds k v gl'"
proof (induction cs arbitrary: gl sk)
  case Nil
  then show ?case by simp
next
  case (Cons c cs)
  then show ?case
    by (auto split: sum.splits option.splits intro: holds_pushKey_mono)
qed

lemma parseLayout_holds:
  assumes "parseLayout now ctx dmapps gt gl sk cs = Inr (gl', sk')"
    and "c \<in> set cs" and "qdeviceId c = Some d"
  shows "\<exists>cmp. layoutComponent now ctx dmapps gt c = Inr cmp \<and> holds d cmp gl'"
  using assms
proof (induction cs arbitrary: gl sk)
  case Nil
  then show ?case by simp
next
  case (Cons a cs)
  from Cons.prems(1) obtain cmpa where a: "layoutComponent now ctx dmapps gt a = Inr cmpa"
    by (auto split: sum.splits)
  show ?case
  proof (cases "c = a")
    case True
    have dev: "ldeviceId (layout cmpa) = Some d"
      using layoutComponent_fields[OF a] True Cons.prems(3) by simp
    then have "parseLayout now ctx dmapps gt (pushKey d cmpa gl) sk cs = Inr (gl', sk')"
      using Cons.prems(1) a by simp
    then have "holds d cmpa gl'"
      by (rule parseLayout_mono) (rule holds_pushKey)
    then show ?thesis using a True by blast
  next
    case False
    then have "c \<in> set cs" using Cons.prems(2) by simp
    then show ?thesis
      using Cons.IH Cons.prems(1,3) a
      by (auto split: option.splits)
  qed
qed

lemma mapE_Inr:
  "mapE f xs = Inr ys \<Longrightarrow> x \<in> set xs \<Longrightarrow> \<exists>y \<in> set ys. f x = Inr y"
  by (induction xs arbitrary: ys) (auto split: sum.splits)

lemma mapE_Inr_rev:
  "mapE f xs = Inr ys \<Longrightarrow> y \<in> set ys \<Longrightarrow> \<exists>x \<in> set xs. f x = Inr y"
  by (induction xs arbitrary: ys) (auto split: sum.splits)

lemma set_keyOrder: "set (keyOrder kvs) = set kvs"
  by (auto simp: keyOrder_def)

lemma unitsComponent_fields:
  "componentId (convertComponent wh cmp) = componentId cmp
   \<and> ldeviceId (layout (convertComponent wh cmp)) = ldeviceId (layout cmp)
   \<and> regionId (layout (convertComponent wh cmp)) = regionId (layout cmp)
   \<and> componentId (truncateComponent cmp) = componentId cmp
   \<and> ldeviceId (layout (truncateComponent cmp)) = ldeviceId (layout cmp)
   \<and> regionId (layout (truncateComponent cmp)) = regionId (layout cmp)"
  by (simp add: convertComponent_def truncateComponent_def)

lemma unitsDevice_fields:
  assumes "unitsDevice pc ctx dev = Inr dev'"
  shows "ldDeviceId dev' = ldDeviceId dev
         \<and> (\<forall>cmp \<in> set (ldComponents dev). \<exists>cmp' \<in> set (ldComponents dev').
               componentId cmp' = componentId cmp \<and> ldeviceId (layout cmp') = ldeviceId (layout cmp)
               \<and> regionId (layout cmp') = regionId (layout cmp))
         \<and> (\<forall>cmp' \<in> set (ldComponents dev'). \<exists>cmp \<in> set (ldComponents dev).
               componentId cmp' = componentId cmp \<and> ldeviceId (layout cmp') = ldeviceId (layout cmp)
               \<and> regionId (layout cmp') = regionId (layout cmp))"
proof -
  let ?f = "\<lambda>device cmp. case regionExtent device cmp of
                               Inl e \<Rightarrow> Inl e
                             | Inr wh \<Rightarrow> Inr (if pc then convertComponent wh cmp
                                               else truncateComponent cmp)"
  from assms obtain device cs where dv: "getDevice ctx (ldDeviceId dev) = Some device"
    and cs: "mapE (?f device) (ldComponents dev) = Inr cs" and dev': "dev' = dev\<lparr>ldComponents := cs\<rparr>"
    by (auto simp: unitsDevice_def split: option.splits sum.splits)
  have f: "?f device cmp = Inr cmp' \<Longrightarrow>
        componentId cmp' = componentId cmp \<and> ldeviceId (layout cmp') = ldeviceId (layout cmp)
        \<and> regionId (layout cmp') = regionId (layout cmp)" for cmp cmp'
    using unitsComponent_fields by (auto split: sum.splits if_splits)
  show ?thesis
    using mapE_Inr[OF cs] mapE_Inr_rev[OF cs] f dev' by (simp, meson)
qed

lemma purgeRegion_fields:
  "componentId (purgeRegion ctx cmp) = componentId cmp
   \<and> ldeviceId (layout (purgeRegion ctx cmp)) = ldeviceId (layout cmp)
   \<and> regionId (layout (purgeRegion ctx cmp)) =
       (if ldeviceId (layout cmp) = regionId (layout cmp) then None else regionId (layout cmp))"
  by (simp add: purgeRegion_def)

lemma postProcess_devices:
  assumes "postProcess ctx lay = Inr R"
  shows "mapE (unitsDevice (percentCoords ctx = Some True) ctx)
           (map (\<lambda>dev. dev\<lparr>ldComponents := map (purgeRegion ctx) (ldComponents dev)\<rparr>) (cdevices lay))
         = Inr (cdevices R)"
  using assms
  by (auto simp: postProcess_def Let_def convertLayoutToPercentages_def truncateLayoutSizes_def
      split: if_splits sum.splits)

lemma postProcess_forward:
  assumes pp: "postProcess ctx lay = Inr R" and dev: "dev \<in> set (cdevices lay)"
    and cmp: "cmp \<in> set (ldComponents dev)"
  shows "\<exists>dev' \<in> set (cdevices R). ldDeviceId dev' = ldDeviceId dev \<and>
           (\<exists>cmp' \<in> set (ldComponents dev'). componentId cmp' = componentId cmp
              \<and> ldeviceId (layout cmp') = ldeviceId (layout cmp)
              \<and> regionId (layout cmp') =
                  (if ldeviceId (layout cmp) = regionId (layout cmp) then None else regionId (layout cmp)))"
proof -
  let ?p = "\<lambda>dev. dev\<lparr>ldComponents := map (purgeRegion ctx) (ldComponents dev)\<rparr>"
  have "?p dev \<in> set (map ?p (cdevices lay))" using dev by simp
  from mapE_Inr[OF postProcess_devices[OF pp] this]
  obtain dev' where dev': "dev' \<in> set (cdevices R)"
    "unitsDevice (percentCoords ctx = Some True) ctx (?p dev) = Inr dev'" by blast
  have "purgeRegion ctx cmp \<in> set (ldComponents (?p dev))" using cmp by simp
  with unitsDevice_fields[OF dev'(2)] obtain cmp' where
    "cmp' \<in> set (ldComponents dev')" "componentId cmp' = componentId (purgeRegion ctx cmp)"
    "ldeviceId (layout cmp') = ldeviceId (layout (purgeRegion ctx cmp))"
    "regionId (layout cmp') = regionId (layout (purgeRegion ctx cmp))" by blast
  then show ?thesis using dev' unitsDevice_fields[OF dev'(2)] purgeRegion_fields[of ctx cmp]
    by (intro bexI[of _ dev'] conjI bexI[of _ cmp']) simp_all
qed

lemma postProcess_backward:
  assumes pp: "postProcess ctx lay = Inr R" and dev': "dev' \<in> set (cdevices R)"
    and cmp': "cmp' \<in> set (ldComponents dev')"
  shows "regionId (layout cmp') = None \<or> regionId (layout cmp') \<noteq> ldeviceId (layout cmp')"
proof -
  let ?p = "\<lambda>dev. dev\<lparr>ldComponents := map (purgeRegion ctx) (ldComponents dev)\<rparr>"
  from mapE_Inr_rev[OF postProcess_devices[OF pp] dev']
  obtain dev where dev: "dev \<in> set (cdevices lay)"
    "unitsDevice (percentCoords ctx = Some True) ctx (?p dev) = Inr dev'" by auto
  with unitsDevice_fields[OF dev(2)] cmp' obtain cmp where
    "cmp \<in> set (ldComponents dev)"
    "ldeviceId (layout cmp') = ldeviceId (layout (purgeRegion ctx cmp))"
    "regionId (layout cmp') = regionId (layout (purgeRegion ctx cmp))" by auto
  then show ?thesis using purgeRegion_fields[of ctx cmp] by (auto split: if_splits)
qed

subsection \<open>The insertion sort and the key of the comparison function\<close>







subsection \<open>What manageHiddenComps carries over, keeps and adds\<close>

lemma provOk_pushHidden:
  assumes ok: "provOk K st" and k: "K compId devId"
  shows "provOk K (st\<lparr>hstore := s', hdevs := pushHidden devId compId latest (hdevs st)\<rparr>)"
proof -
  let ?f = "\<lambda>d. (fst d, snd d @ [Shared compId latest])"
  have "\<forall>d \<in> set (pushHidden devId compId latest (hdevs st)). \<forall>e \<in> set (snd d).
          (case e of Own c \<Rightarrow> True | Shared cid b \<Rightarrow> K cid (fst d))"
  proof (intro ballI)
    fix d e assume d: "d \<in> set (pushHidden devId compId latest (hdevs st))" and e: "e \<in> set (snd d)"
    have "d \<in> set (hdevs st) \<or> (\<exists>d0 \<in> set (hdevs st). fst d0 = devId \<and> d = ?f d0)
          \<or> d = (devId, [Shared compId latest])"
      using d set_updateFirst[of "\<lambda>d. fst d = devId" ?f "hdevs st"]
      by (auto simp: pushHidden_def split: option.splits)
    then consider (a) "d \<in> set (hdevs st)"
      | (b) d0 where "d0 \<in> set (hdevs st)" "fst d0 = devId" "d = ?f d0"
      | (c) "d = (devId, [Shared compId latest])" by blast
    then show "(case e of Own c \<Rightarrow> True | Shared cid b \<Rightarrow> K cid (fst d))"
    proof cases
      case a
      then show ?thesis using ok e by (auto simp: provOk_def)
    next
      case b
      then have "e \<in> set (snd d0) \<or> e = Shared compId latest" using e by auto
      then show ?thesis
      proof
        assume "e \<in> set (snd d0)"
        then have "(case e of Own c \<Rightarrow> True | Shared cid b \<Rightarrow> K cid (fst d0))"
          using ok b(1) by (auto simp: provOk_def)
        then show ?thesis using b by (cases e) simp_all
      next
        assume "e = Shared compId latest"
        then show ?thesis using k b by simp
      qed
    next
      case c
      then show ?thesis using k e by simp
    qed
  qed
  then show ?thesis by (simp add: provOk_def)
qed

lemma provOk_hiddenStep:
  assumes ok: "provOk K st"
    and k: "\<And>cmp latest. find (\<lambda>c. componentId c = compId) (ldComponents dev) = Some cmp
              \<Longrightarrow> hasDevice ctx (ldDeviceId dev) \<Longrightarrow> getComponent dmapp compId = Some latest
              \<Longrightarrow> stopTime latest = None \<Longrightarrow> startTime cmp \<noteq> None \<Longrightarrow> lsize (layout cmp) \<noteq> None
              \<Longrightarrow> K compId (ldDeviceId dev)"
  shows "provOk K (hiddenStep ctx dmapp compId st dev)"
proof (cases "find (\<lambda>c. componentId c = compId) (ldComponents dev)")
  case None
  then show ?thesis using ok by (simp add: hiddenStep_def)
next
  case (Some cmp)
  have id: "componentId cmp = compId" using find_SomeD[OF Some] by simp
  show ?thesis
  proof (cases "getComponent dmapp compId")
    case None
    then show ?thesis using ok Some id by (simp add: hiddenStep_def)
  next
    case latest: (Some latest)
    show ?thesis
    proof (cases "hasDevice ctx (ldDeviceId dev) \<and> stopTime latest = None
                  \<and> startTime cmp \<noteq> None \<and> lsize (layout cmp) \<noteq> None")
      case True
      then have "K compId (ldDeviceId dev)" using k[OF Some _ latest] by blast
      from provOk_pushHidden[OF ok this] show ?thesis
        using Some latest id True by (simp add: hiddenStep_def)
    next
      case False
      then show ?thesis using ok Some latest id by (auto simp: hiddenStep_def)
    qed
  qed
qed

lemma provOk_hiddenEntry:
  assumes ok: "provOk (carries ctx dmapp prev newLayout) st"
    and np: "np \<in> set (notPlaced newLayout)"
  shows "provOk (carries ctx dmapp prev newLayout) (hiddenEntry ctx dmapp (glDevices prev) st np)"
proof (cases "status np = ''incompatible'' \<or> status np = ''skipped''")
  case False
  then show ?thesis using ok by (simp add: hiddenEntry_def)
next
  case True
  have step: "provOk (carries ctx dmapp prev newLayout) (hiddenStep ctx dmapp compId s dev)"
    if "provOk (carries ctx dmapp prev newLayout) s" "compId \<in> set (scomponents np)"
      "dev \<in> set (glDevices prev)" for s compId dev
  proof (rule provOk_hiddenStep[OF that(1)])
    fix cmp latest
    assume "find (\<lambda>c. componentId c = compId) (ldComponents dev) = Some cmp"
      "hasDevice ctx (ldDeviceId dev)" "getComponent dmapp compId = Some latest"
      "stopTime latest = None" "startTime cmp \<noteq> None" "lsize (layout cmp) \<noteq> None"
    then show "carries ctx dmapp prev newLayout compId (ldDeviceId dev)"
      using np True that(2,3) by (auto simp: carries_def list_ex_iff)
  qed
  have inner: "provOk (carries ctx dmapp prev newLayout) (foldl (hiddenStep ctx dmapp compId) s (glDevices prev))"
    if "provOk (carries ctx dmapp prev newLayout) s" "compId \<in> set (scomponents np)" for s compId
    by (rule foldl_invariant[where P="provOk (carries ctx dmapp prev newLayout)"])
       (use that step in auto)
  have "provOk (carries ctx dmapp prev newLayout)
          (foldl (\<lambda>st' compId. foldl (hiddenStep ctx dmapp compId) st' (glDevices prev)) st (scomponents np))"
    by (rule foldl_invariant[where P="provOk (carries ctx dmapp prev newLayout)"])
       (use ok inner in auto)
  then show ?thesis using True by (simp add: hiddenEntry_def)
qed

lemma keepsEntry_pushHidden:
  assumes "keepsEntry devId e st"
  shows "keepsEntry devId e (st\<lparr>hstore := s', hdevs := pushHidden devId' compId' latest (hdevs st)\<rparr>)"
proof -
  from assms obtain d where d: "d \<in> set (hdevs st)" "fst d = devId" "e \<in> set (snd d)"
    by (auto simp: keepsEntry_def)
  let ?f = "\<lambda>d. (fst d, snd d @ [Shared compId' latest])"
  let ?xs = "updateFirst (\<lambda>d. fst d = devId') ?f (hdevs st)"
  have "d \<in> set ?xs \<or> ?f d \<in> set ?xs" using updateFirst_keeps[OF d(1)] by blast
  then have upd: "\<exists>d' \<in> set ?xs. fst d' = devId \<and> e \<in> set (snd d')"
  proof
    assume "d \<in> set ?xs" then show ?thesis using d by blast
  next
    assume "?f d \<in> set ?xs"
    then show ?thesis using d by (intro bexI[of _ "?f d"]) simp_all
  qed
  have old: "\<exists>d' \<in> set (hdevs st). fst d' = devId \<and> e \<in> set (snd d')" using d by blast
  show ?thesis
    using upd old by (auto simp: keepsEntry_def pushHidden_def split: option.splits)
qed

lemma keepsEntry_hiddenStep:
  "keepsEntry devId e st \<Longrightarrow> keepsEntry devId e (hiddenStep ctx dmapp compId st dev)"
  unfolding hiddenStep_def
  by (auto split: option.splits intro: keepsEntry_pushHidden)

lemma keepsEntry_hiddenEntry:
  assumes "keepsEntry devId e st"
  shows "keepsEntry devId e (hiddenEntry ctx dmapp prevDevices st np)"
proof -
  have inner: "keepsEntry devId e (foldl (hiddenStep ctx dmapp compId) s prevDevices)"
    if "keepsEntry devId e s" for s compId
    by (rule foldl_invariant[where P="keepsEntry devId e"])
       (use that in \<open>auto intro: keepsEntry_hiddenStep\<close>)
  have "keepsEntry devId e
          (foldl (\<lambda>st' compId. foldl (hiddenStep ctx dmapp compId) st' prevDevices) st (scomponents np))"
    by (rule foldl_invariant[where P="keepsEntry devId e"])
       (use assms inner in auto)
  then show ?thesis using assms by (simp add: hiddenEntry_def)
qed

lemma manageHiddenComps_keeps:
  assumes d0: "d0 \<in> set (glDevices newLayout)" and c: "c \<in> set (ldComponents d0)"
  shows "\<exists>d \<in> set (glDevices (manageHiddenComps ctx (Some prev) newLayout dmapp)).
           ldDeviceId d = ldDeviceId d0 \<and> c \<in> set (ldComponents d)"
proof -
  let ?init = "\<lparr>hdevs = map (\<lambda>d. (ldDeviceId d, map Own (ldComponents d))) (glDevices newLayout),
               hstore = Map.empty\<rparr>"
  let ?st = "foldl (hiddenEntry ctx dmapp (glDevices prev)) ?init (notPlaced newLayout)"
  have "keepsEntry (ldDeviceId d0) (Own c) ?init"
    unfolding keepsEntry_def
    by (rule bexI[of _ "(ldDeviceId d0, map Own (ldComponents d0))"]) (use d0 c in auto)
  then have "keepsEntry (ldDeviceId d0) (Own c) ?st"
    by (rule foldl_invariant[where P="keepsEntry (ldDeviceId d0) (Own c)"])
       (auto intro: keepsEntry_hiddenEntry)
  then obtain d' where d': "d' \<in> set (hdevs ?st)" "fst d' = ldDeviceId d0" "Own c \<in> set (snd d')"
    by (auto simp: keepsEntry_def)
  let ?d = "\<lparr>ldDeviceId = fst d', ldComponents = map (resolveEntry (hstore ?st)) (snd d')\<rparr>"
  have "?d \<in> set (glDevices (manageHiddenComps ctx (Some prev) newLayout dmapp))"
    using d'(1) by (simp add: manageHiddenComps_def Let_def)
  moreover have "c \<in> set (ldComponents ?d)"
    using d'(3) by (force simp: image_iff)
  ultimately show ?thesis using d'(2) by (intro bexI[of _ ?d]) simp_all
qed

lemma manageHiddenComps_forward:
  assumes "np \<in> set (notPlaced newLayout)"
    and "status np = ''incompatible'' \<or> status np = ''skipped''"
    and "compId \<in> set (scomponents np)"
    and "dev \<in> set (glDevices prev)"
    and "find (\<lambda>c. componentId c = compId) (ldComponents dev) = Some cmp"
    and "hasDevice ctx (ldDeviceId dev)"
    and "getComponent dmapp compId = Some latest"
    and "stopTime latest = None" and "startTime cmp \<noteq> None" and "lsize (layout cmp) \<noteq> None"
  shows "\<exists>d \<in> set (glDevices (manageHiddenComps ctx (Some prev) newLayout dmapp)).
           ldDeviceId d = ldDeviceId dev \<and>
           (\<exists>c \<in> set (ldComponents d). componentId c = compId \<and>
              (lsize (layout c) = Some \<lparr>lwidth = Px (Num (- 1)), lheight = Px (Num (- 1))\<rparr>
               \<or> (\<exists>d0 \<in> set (glDevices newLayout). ldDeviceId d0 = ldDeviceId dev \<and> c \<in> set (ldComponents d0))))"
proof -
  let ?init = "\<lparr>hdevs = map (\<lambda>d. (ldDeviceId d, map Own (ldComponents d))) (glDevices newLayout),
               hstore = Map.empty\<rparr>"
  let ?st = "foldl (hiddenEntry ctx dmapp (glDevices prev)) ?init (notPlaced newLayout)"
  have ok0: "stateOk (glDevices newLayout) ?init"
    by (auto simp: stateOk_def entryOk_def)
  have ok: "stateOk (glDevices newLayout) ?st"
    by (rule foldl_invariant[where P="stateOk (glDevices newLayout)"])
       (use ok0 in \<open>auto intro: hiddenEntry_invariants\<close>)
  have has: "hasEntry (ldDeviceId dev) compId ?st"
    by (rule foldl_establish[OF assms(1)])
       (use assms in \<open>auto intro: hiddenEntry_establish hiddenEntry_mono\<close>)
  then obtain d e where d: "d \<in> set (hdevs ?st)" "fst d = ldDeviceId dev" "e \<in> set (snd d)" "entryId e = compId"
    by (auto simp: hasEntry_def)
  have eok: "entryOk (glDevices newLayout) (hstore ?st) (ldDeviceId dev) e"
    using ok d by (auto simp: stateOk_def)
  let ?c = "resolveEntry (hstore ?st) e"
  have c: "componentId ?c = compId \<and>
       (lsize (layout ?c) = Some \<lparr>lwidth = Px (Num (- 1)), lheight = Px (Num (- 1))\<rparr>
        \<or> (\<exists>d0 \<in> set (glDevices newLayout). ldDeviceId d0 = ldDeviceId dev \<and> ?c \<in> set (ldComponents d0)))"
  proof (cases e)
    case (Own c0)
    then show ?thesis using eok d(4) by (simp add: entryOk_def)
  next
    case (Shared cid b)
    then obtain c1 where "hstore ?st cid = Some c1" "componentId c1 = cid" "lsize (layout c1) = Some minusOne"
      using eok by (auto simp: entryOk_def)
    then show ?thesis using Shared d(4) by (simp add: minusOne_def)
  qed
  let ?d = "\<lparr>ldDeviceId = fst d, ldComponents = map (resolveEntry (hstore ?st)) (snd d)\<rparr>"
  have "?d \<in> set (glDevices (manageHiddenComps ctx (Some prev) newLayout dmapp))"
    using d(1) by (simp add: manageHiddenComps_def Let_def)
  moreover have "ldDeviceId ?d = ldDeviceId dev" using d(2) by simp
  moreover have "?c \<in> set (ldComponents ?d)" using d(3) by simp
  ultimately show ?thesis using c by blast
qed

lemma manageHiddenComps_backward:
  assumes d: "d \<in> set (glDevices (manageHiddenComps ctx (Some prev) newLayout dmapp))"
    and c: "c \<in> set (ldComponents d)"
  shows "(\<exists>d0 \<in> set (glDevices newLayout). ldDeviceId d0 = ldDeviceId d \<and> c \<in> set (ldComponents d0))
       \<or> (carries ctx dmapp prev newLayout (componentId c) (ldDeviceId d)
            \<and> lsize (layout c) = Some \<lparr>lwidth = Px (Num (- 1)), lheight = Px (Num (- 1))\<rparr>)"
proof -
  let ?init = "\<lparr>hdevs = map (\<lambda>d. (ldDeviceId d, map Own (ldComponents d))) (glDevices newLayout),
               hstore = Map.empty\<rparr>"
  let ?st = "foldl (hiddenEntry ctx dmapp (glDevices prev)) ?init (notPlaced newLayout)"
  let ?K = "carries ctx dmapp prev newLayout"
  have ok0: "stateOk (glDevices newLayout) ?init"
    by (auto simp: stateOk_def entryOk_def)
  have ok: "stateOk (glDevices newLayout) ?st"
    by (rule foldl_invariant[where P="stateOk (glDevices newLayout)"])
       (use ok0 in \<open>auto intro: hiddenEntry_invariants\<close>)
  have pv0: "provOk ?K ?init"
    by (auto simp: provOk_def)
  have pv: "provOk ?K ?st"
    by (rule foldl_invariant[where P="provOk ?K"])
       (use pv0 in \<open>auto intro: provOk_hiddenEntry\<close>)
  from d obtain d' where d': "d' \<in> set (hdevs ?st)"
    "d = \<lparr>ldDeviceId = fst d', ldComponents = map (resolveEntry (hstore ?st)) (snd d')\<rparr>"
    by (auto simp: manageHiddenComps_def Let_def)
  from c d'(2) obtain e where e: "e \<in> set (snd d')" "c = resolveEntry (hstore ?st) e"
    by auto
  have eok: "entryOk (glDevices newLayout) (hstore ?st) (fst d') e"
    using ok d'(1) e(1) by (auto simp: stateOk_def)
  have epv: "(case e of Own c \<Rightarrow> True | Shared cid b \<Rightarrow> ?K cid (fst d'))"
    using pv d'(1) e(1) by (auto simp: provOk_def)
  show ?thesis
  proof (cases e)
    case (Own c0)
    then show ?thesis using eok e(2) d'(2) by (auto simp: entryOk_def)
  next
    case (Shared cid b)
    then obtain c1 where c1: "hstore ?st cid = Some c1" "componentId c1 = cid"
      "lsize (layout c1) = Some minusOne"
      using eok by (auto simp: entryOk_def)
    have "c = c1" using e(2) Shared c1(1) by simp
    moreover have "?K cid (fst d')" using epv Shared by simp
    ultimately show ?thesis using c1 d'(2) by (simp add: minusOne_def)
  qed
qed

subsection \<open>Sizes of the example rectangles\<close>

lemma ex_rectSize: "rectSize (ex_constraint p anc) ex_box = (Num 400, Num 300)"
  by (simp add: rectSize_def ex_constraint_def toPixelResolution_def absoluteMinSize_def minRect_def
      MinDimension_def noAspect_def correctedSize_def getAspectCorrectedComponentSize_def ex_box_def
      deviceNode_def)


lemma ex1_list:
  "buildComponentList ex_ctx [ex_dmapp cid 0] [''tv''] [deviceNode ''tv'' ex_tv] ''communal''
     = Inr \<lparr>componentlist = [], allIds = [cid]\<rparr>"
  by (simp add: buildComponentList_def ex_ctx_def getDevice_def ex_tv_def ex_dmapp_def
      getPrioritizedComponentList_def listEntry_def Let_def toConstraint_def resolvePriority_def
      getPriority_def ex_comp_def getComponentConstraints_def ex_config_def withMinSize_def
      defaultComponentConstraint_def List.map_filter_def jsSort_def ex_caps_def)

lemma ex10_list:
  "buildComponentList ex_ctx [ex_dmapp ''clip'' 5] [''tv''] [deviceNode ''tv'' ex_tv] ''communal''
     = Inr \<lparr>componentlist = [ex10_rect\<lparr>qx0 := NaN, qy0 := NaN, qwidth := NaN, qheight := NaN,
                qdeviceId := None, qregionId := None\<rparr>], allIds = [''clip'']\<rparr>"
  by (simp add: buildComponentList_def ex_ctx_def getDevice_def ex_tv_def ex_dmapp_def
      getPrioritizedComponentList_def listEntry_def Let_def resolvePriority_def
      getPriority_def ex_comp_def getComponentConstraints_def ex_config_def withMinSize_def
      defaultComponentConstraint_def List.map_filter_def jsSort_def ex_caps_def ex10_rect_def
      kpriority_toConstraint meetConstraints_def jgt_def MinDimension_def deviceNode_def ex_layout_def)

lemma ex10_run:
  "\<exists>R. runLayout ex10_packer 7 ex_ctx [ex_dmapp ''clip'' 5] ex_empty [''tv''] ''lounge'' ''communal'' = Inr R"
  apply (simp add: runLayout_def ex_regions ex10_list del: buildRegionNodeTree.simps)
  apply (simp add: ex_empty_def ex10_packer_def Let_def unionJs_def differenceJs_def
      layoutComponent_def ex_dmapp_def getComponent_def ex_comp_def ex10_rect_def keyOrder_def
      isArrayIndex_def isDigit_def postProcess_def ex_ctx_def truncateLayoutSizes_def unitsDevice_def
      getDevice_def ex_tv_def regionExtent_def purgeRegion_def ex_layout_def)
  done


lemma ex7_list:
  "buildComponentList ex_ctx [ex7_dmapp] [''tv''] [deviceNode ''tv'' ex_tv] ''communal''
     = Inr \<lparr>componentlist = [], allIds = [''clip'']\<rparr>"
  by (simp add: buildComponentList_def ex_ctx_def getDevice_def ex_tv_def ex7_dmapp_def
      getPrioritizedComponentList_def listEntry_def Let_def toConstraint_def resolvePriority_def
      getPriority_def ex_comp_def getComponentConstraints_def ex_config_def withMinSize_def
      defaultComponentConstraint_def List.map_filter_def jsSort_def ex_caps_def)

lemma ex6_inch_size: "rectSize (qconstraints ex6_inch) ex_box = (NaN, NaN)"
  by (simp add: rectSize_def ex6_inch_def ex_rect_def ex_constraint_def toPixelResolution_def
      absoluteMinSize_def minRect_def MinDimension_def noAspect_def correctedSize_def
      getAspectCorrectedComponentSize_def ex_box_def deviceNode_def ex_tv_def ex_caps_def)

text \<open>
  With a candidate whose size is not a number between them, an anchored candidate
  stays before one without anchor of the same priority and size: every comparison
  with the improper size answers \<open>-1\<close>.
\<close>

lemma jsSort_improper_size:
  "properSize ex_box ex6_inch = False
   \<and> jsSort (listCompare ex_box) [ex6_anchored, ex6_inch, ex6_free] = [ex6_anchored, ex6_inch, ex6_free]"
  apply (simp add: properSize_def ex6_inch_size jsSort_def listCompare_def Let_def)
  apply (simp add: ex6_anchored_def ex6_free_def ex_rect_def ex_rectSize largerEqual_def jgt_def
      ex6_inch_size[simplified ex6_inch_def ex_rect_def, simplified] ex6_inch_def)
  apply (simp add: ex_constraint_def)
  done

section \<open>The claims\<close>

text \<open>
  Claim C1. A component whose effective priority is 0 is never placed and is reported
  in \<open>notPlaced\<close> with status \<open>skipped\<close>. On the example (one television, one started
  component of priority 0) the component list is empty, the packer is not run, no
  device entry is created, and \<open>runLayout\<close> reports the component with status
  \<open>incompatible\<close>, whatever the packer is.
\<close>

theorem runLayout_priority_zero_incompatible:
  "runLayout packRegions now ex_ctx [ex_dmapp ''banner'' 0] ex_empty [''tv''] ''lounge'' ''communal''
     = Inr \<lparr>cdevices = [],
            cnotPlaced = [\<lparr>sgroup = ''lounge'', status = ''incompatible'', scomponents = [''banner'']\<rparr>],
            cnoDevice = []\<rparr>"
  by (simp add: runLayout_def ex_regions ex1_list ex_empty_def del: buildRegionNodeTree.simps)

text \<open>
  Claim C2. On every placed rectangle whose aspect constraint is not zero, the error
  \<open>|height / width - aspect|\<close> of the final rectangle is at most 0.001. The sizing steps
  that the packer runs for one component of aspect 16:9 (\<open>_aspect\<close> = 9/16) without
  preferred size on a free node of 100 by 100: \<open>packRect\<close> sizes the rectangle with
  \<open>correctedSize\<close> to 100 by 56 and cuts the node along its height; the packer's check
  \<open>isEqualwithPrecision (56 / 100) (9/16) 0.001\<close> fails, so \<open>aspect_adjust_nofail\<close>
  corrects the size with \<open>directed_aspect_correct_\<close> to 99 by 56 and cuts the node along
  its width; the rectangle takes the size of that node, 99 by 56, which is not checked
  again and misses the tolerance as well.
\<close>

theorem aspect_correction_misses_tolerance:
  "correctedSize (Num 100) (Num 100) (Num 0) (Num (9 / 16)) (Num 100) (Num 100) = (Num 100, Num 56)
   \<and> getDivide (Num 100, Num 100) (Num 100, Num 56) = ''height''
   \<and> isEqualwithPrecision (jdiv (Num 56) (Num 100)) (Num (9 / 16)) (Num (1 / 1000)) = False
   \<and> directed_aspect_correct' (Num 100) (Num 56) (Num (9 / 16)) (Num 0) ''width'' (Num 1, Num 1)
       = (Num 99, Num 56)
   \<and> getDivide (Num 100, Num 56) (Num 99, Num 56) = ''width''
   \<and> isEqualwithPrecision (jdiv (Num 56) (Num 99)) (Num (9 / 16)) (Num (1 / 1000)) = False"
  by (simp add: correctedSize_def getAspectCorrectedComponentSize_def noAspect_def jgt_def jge_def
      getDivide_def MinDimension_def isEqualwithPrecision_def directed_aspect_correct'_def Let_def
      floor_eq_iff)








text \<open>
  Claim C7. A component listed in the new layout's \<open>notPlaced\<close> with status
  \<open>incompatible\<close> or \<open>skipped\<close>, started and not stopped, and present on a device of the
  group in the previous layout, is re-inserted on that device with a layout of size
  \<open>{-1, -1}\<close>. On the code the claim fails: \<open>clip\<close> was initialised and the layout
  simulation stored it on the television; one transaction then starts it and binds
  it to a constraint of priority 0. The layout run of that state places nothing and
  reports \<open>clip\<close> as incompatible, whatever the packer is; \<open>clip\<close> is running and is
  on the television in the previous layout, but its entry there has \<open>startTime\<close>
  null, so neither \<open>manageInitedComps\<close> (the new layout has no entry for the
  television) nor \<open>manageHiddenComps\<close> inserts it, and the new layout is left without
  any device entry.
\<close>

theorem manageHiddenComps_reinserts_counterexample:
  "(\<forall>packRegions now.
      runLayout packRegions now ex_ctx [ex7_dmapp] ex_empty [''tv''] ''lounge'' ''communal''
        = Inr \<lparr>cdevices = glDevices ex7_new, cnotPlaced = notPlaced ex7_new, cnoDevice = []\<rparr>)
   \<and> ex7_hidden \<in> set (notPlaced ex7_new) \<and> status ex7_hidden = ''incompatible''
   \<and> ''clip'' \<in> set (scomponents ex7_hidden)
   \<and> getComponent ex7_dmapp ''clip'' = Some (ex_comp ''clip'' ''hidden'')
   \<and> startTime (ex_comp ''clip'' ''hidden'') = Some 1
   \<and> stopTime (ex_comp ''clip'' ''hidden'') = None
   \<and> glDevices ex7_simulated = [\<lparr>ldDeviceId = ''tv'', ldComponents = [ex7_inited]\<rparr>]
   \<and> componentId ex7_inited = ''clip''
   \<and> getGroupDevices ex_ctx (sgroup ex7_hidden) = [''tv'']
   \<and> glDevices (manageHiddenComps ex_ctx (Some ex7_simulated)
                  (manageInitedComps ex_ctx (Some ex7_simulated) ex7_new ex7_dmapp)
                  ex7_dmapp) = []"
  apply (intro conjI allI)
            apply (simp add: runLayout_def ex_regions ex7_list ex_empty_def ex7_new_def ex7_hidden_def
      del: buildRegionNodeTree.simps)
           apply (simp_all add: manageHiddenComps_def manageInitedComps_def carryInited_def hiddenEntry_def
      hiddenStep_def ex7_simulated_def ex7_new_def ex7_hidden_def ex7_inited_def ex_comp_def
      ex7_dmapp_def getComponent_def hasDevice_def getGroupDevices_def ex_ctx_def ex_tv_def ex_layout_def)
  done

text \<open>
  Claim C7, amended. \<open>manageHiddenComps\<close> carries a component over to a device when
  the new layout lists it in \<open>notPlaced\<close> with status \<open>incompatible\<close> or \<open>skipped\<close>,
  the DMApp holds it with \<open>stopTime\<close> null, and the previous layout has, for a
  device that the context still holds, an entry of that device in which the
  component is a started one (in that stored entry \<open>startTime\<close> is set and the
  layout has a size). A component carried over to a device is present on that device
  in the layout returned: with a layout of size \<open>{-1, -1}\<close>, or as the entry that
  the new layout already had for it on that device. Conversely every entry of the
  layout returned is an entry of the new layout on the same device, or a component
  carried over to that device with a layout of size \<open>{-1, -1}\<close>; and every entry of
  the new layout is still there. A component whose stored entry has \<open>startTime\<close>
  null is therefore not re-inserted, even when it is running now.
\<close>

theorem manageHiddenComps_reinserts:
  "(carries ctx dmapp prev newLayout compId devId \<longrightarrow>
      (\<exists>d \<in> set (glDevices (manageHiddenComps ctx (Some prev) newLayout dmapp)).
         ldDeviceId d = devId \<and>
         (\<exists>c \<in> set (ldComponents d). componentId c = compId \<and>
            (lsize (layout c) = Some \<lparr>lwidth = Px (Num (- 1)), lheight = Px (Num (- 1))\<rparr>
             \<or> (\<exists>d0 \<in> set (glDevices newLayout). ldDeviceId d0 = devId \<and> c \<in> set (ldComponents d0))))))
   \<and> (\<forall>d \<in> set (glDevices (manageHiddenComps ctx (Some prev) newLayout dmapp)).
        \<forall>c \<in> set (ldComponents d).
          (\<exists>d0 \<in> set (glDevices newLayout). ldDeviceId d0 = ldDeviceId d \<and> c \<in> set (ldComponents d0))
          \<or> (carries ctx dmapp prev newLayout (componentId c) (ldDeviceId d)
               \<and> lsize (layout c) = Some \<lparr>lwidth = Px (Num (- 1)), lheight = Px (Num (- 1))\<rparr>))
   \<and> (\<forall>d0 \<in> set (glDevices newLayout). \<forall>c \<in> set (ldComponents d0).
        \<exists>d \<in> set (glDevices (manageHiddenComps ctx (Some prev) newLayout dmapp)).
          ldDeviceId d = ldDeviceId d0 \<and> c \<in> set (ldComponents d))"
proof (intro conjI impI ballI)
  assume k: "carries ctx dmapp prev newLayout compId devId"
  then obtain np dev cmp latest where
    "np \<in> set (notPlaced newLayout)" "status np = ''incompatible'' \<or> status np = ''skipped''"
    "compId \<in> set (scomponents np)" "dev \<in> set (glDevices prev)" "ldDeviceId dev = devId"
    "find (\<lambda>c. componentId c = compId) (ldComponents dev) = Some cmp"
    "hasDevice ctx (ldDeviceId dev)" "getComponent dmapp compId = Some latest"
    "stopTime latest = None" "startTime cmp \<noteq> None" "lsize (layout cmp) \<noteq> None"
    by (auto simp: carries_def list_ex_iff split: option.splits)
  from manageHiddenComps_forward[OF this(1,2,3,4,6,7,8,9,10,11)] this(5)
  show "\<exists>d \<in> set (glDevices (manageHiddenComps ctx (Some prev) newLayout dmapp)).
         ldDeviceId d = devId \<and>
         (\<exists>c \<in> set (ldComponents d). componentId c = compId \<and>
            (lsize (layout c) = Some \<lparr>lwidth = Px (Num (- 1)), lheight = Px (Num (- 1))\<rparr>
             \<or> (\<exists>d0 \<in> set (glDevices newLayout). ldDeviceId d0 = devId \<and> c \<in> set (ldComponents d0))))"
    by simp
next
  fix d c
  assume "d \<in> set (glDevices (manageHiddenComps ctx (Some prev) newLayout dmapp))"
    "c \<in> set (ldComponents d)"
  from manageHiddenComps_backward[OF this]
  show "(\<exists>d0 \<in> set (glDevices newLayout). ldDeviceId d0 = ldDeviceId d \<and> c \<in> set (ldComponents d0))
          \<or> (carries ctx dmapp prev newLayout (componentId c) (ldDeviceId d)
               \<and> lsize (layout c) = Some \<lparr>lwidth = Px (Num (- 1)), lheight = Px (Num (- 1))\<rparr>)" .
next
  fix d0 c
  assume "d0 \<in> set (glDevices newLayout)" "c \<in> set (ldComponents d0)"
  from manageHiddenComps_keeps[OF this]
  show "\<exists>d \<in> set (glDevices (manageHiddenComps ctx (Some prev) newLayout dmapp)).
          ldDeviceId d = ldDeviceId d0 \<and> c \<in> set (ldComponents d)" .
qed

theorem manageHiddenComps_reinserts_witness:
  "\<exists>d \<in> set (glDevices (manageHiddenComps ex_ctx (Some ex7_prev) ex7_new (ex7_dmapp))).
      ldDeviceId d = ''tv'' \<and>
      (\<exists>c \<in> set (ldComponents d). componentId c = ''clip'' \<and>
         lsize (layout c) = Some \<lparr>lwidth = Px (Num (- 1)), lheight = Px (Num (- 1))\<rparr>)"
proof -
  have k: "carries ex_ctx (ex7_dmapp) ex7_prev ex7_new ''clip'' ''tv''"
    by (simp add: carries_def ex7_prev_def ex7_new_def ex7_hidden_def ex7_started_def ex_comp_def
        ex7_dmapp_def getComponent_def hasDevice_def ex_ctx_def ex_tv_def ex_layout_def)
  have e: "glDevices ex7_new = []"
    by (simp add: ex7_new_def)
  show ?thesis
    using manageHiddenComps_reinserts [of ex_ctx "ex7_dmapp" ex7_prev ex7_new "''clip''" "''tv''"] k
    by (simp add: e) blast
qed

text \<open>
  Claim C8. A component of the previous layout with \<open>startTime\<close> null that is absent
  from the new layout is re-attached on the same device, also when that device has
  no entry in the new layout. On the example the previous layout holds the
  initialised component \<open>menu\<close> on the television and the new layout has no device
  entry: \<open>manageInitedComps\<close> returns the new layout without any device entry, and
  \<open>menu\<close> is lost.
\<close>

theorem manageInitedComps_loses_component:
  "startTime ex8_inited = None
   \<and> glDevices ex8_prev = [\<lparr>ldDeviceId = ''tv'', ldComponents = [ex8_inited]\<rparr>]
   \<and> glDevices ex8_new = []
   \<and> glDevices (manageInitedComps ex_ctx (Some ex8_prev) ex8_new ex8_dmapp) = []"
  by (simp add: manageInitedComps_def ex8_prev_def ex8_new_def ex8_inited_def carryInited_def
      ex_comp_def ex8_dmapp_def)

text \<open>
  Claim C10. Every rectangle that the packer placed on a node whose region id is the
  device id (the root node of a device without logical regions) is emitted by
  \<open>runLayout\<close> on that device with \<open>regionId\<close> null; and no emitted layout record has
  a \<open>regionId\<close> equal to its \<open>deviceId\<close>. This holds for every packer.
\<close>

theorem runLayout_purges_device_region:
  assumes run: "runLayout packRegions now ctx dmapps lay devicelist groupname grouptype = Inr R"
    and regs: "buildRegionNodeTree ctx devicelist = Inr regs" "regs \<noteq> []"
    and cl: "buildComponentList ctx dmapps devicelist regs grouptype = Inr clist"
      "componentlist clist \<noteq> []"
    and c: "c \<in> set (playout (packRegions regs (componentlist clist) (grouptype = ''mixed'')))"
    and d: "qdeviceId c = Some d" "qregionId c = Some d \<or> qregionId c = None"
  shows "(\<exists>dev \<in> set (cdevices R). ldDeviceId dev = d \<and>
            (\<exists>cmp \<in> set (ldComponents dev). componentId cmp = qcomponentId c
               \<and> ldeviceId (layout cmp) = Some d \<and> regionId (layout cmp) = None))
         \<and> (\<forall>dev \<in> set (cdevices R). \<forall>cmp \<in> set (ldComponents dev).
               regionId (layout cmp) = None \<or> regionId (layout cmp) \<noteq> ldeviceId (layout cmp))"
proof -
  let ?packed = "packRegions regs (componentlist clist) (grouptype = ''mixed'')"
  have ne: "playout ?packed \<noteq> []" using c by auto
  from run regs cl ne obtain gl sk lay4 where
    pl: "parseLayout now ctx dmapps grouptype [] [] (playout ?packed) = Inr (gl, sk)"
    and pp: "postProcess ctx lay4 = Inr R"
    and devs: "set (map (\<lambda>kv. \<lparr>ldDeviceId = fst kv, ldComponents = snd kv\<rparr>) (keyOrder gl))
               \<subseteq> set (cdevices lay4)"
    by (auto simp: runLayout_def Let_def split: sum.splits if_splits prod.splits)
  from parseLayout_holds[OF pl c d(1)] obtain cmp where
    cmp: "layoutComponent now ctx dmapps grouptype c = Inr cmp" "holds d cmp gl" by blast
  then obtain kv where kv: "kv \<in> set gl" "fst kv = d" "cmp \<in> set (snd kv)"
    by (auto simp: holds_def)
  let ?dev = "\<lparr>ldDeviceId = fst kv, ldComponents = snd kv\<rparr>"
  have "?dev \<in> set (cdevices lay4)" using devs kv(1) by (auto simp: set_keyOrder)
  from postProcess_forward[OF pp this, of cmp] kv
  obtain dev' cmp' where r: "dev' \<in> set (cdevices R)" "ldDeviceId dev' = d"
    "cmp' \<in> set (ldComponents dev')" "componentId cmp' = componentId cmp"
    "ldeviceId (layout cmp') = ldeviceId (layout cmp)"
    "regionId (layout cmp') =
       (if ldeviceId (layout cmp) = regionId (layout cmp) then None else regionId (layout cmp))"
    by auto
  have "regionId (layout cmp) = Some d \<and> ldeviceId (layout cmp) = Some d \<and> componentId cmp = qcomponentId c"
    using layoutComponent_fields[OF cmp(1)] d by auto
  then have first: "\<exists>dev \<in> set (cdevices R). ldDeviceId dev = d \<and>
            (\<exists>cmp \<in> set (ldComponents dev). componentId cmp = qcomponentId c
               \<and> ldeviceId (layout cmp) = Some d \<and> regionId (layout cmp) = None)"
    using r by (intro bexI[of _ dev'] conjI bexI[of _ cmp']) simp_all
  show ?thesis using first postProcess_backward[OF pp] by blast
qed

theorem runLayout_purges_device_region_witness:
  "\<exists>R. runLayout ex10_packer 7 ex_ctx [ex_dmapp ''clip'' 5] ex_empty [''tv''] ''lounge'' ''communal'' = Inr R
     \<and> (\<exists>dev \<in> set (cdevices R). ldDeviceId dev = ''tv'' \<and>
            (\<exists>cmp \<in> set (ldComponents dev). componentId cmp = ''clip''
               \<and> ldeviceId (layout cmp) = Some ''tv'' \<and> regionId (layout cmp) = None))"
proof -
  from ex10_run obtain R where
    R: "runLayout ex10_packer 7 ex_ctx [ex_dmapp ''clip'' 5] ex_empty [''tv''] ''lounge'' ''communal'' = Inr R"
    by blast
  show ?thesis
    using runLayout_purges_device_region [OF R ex_regions _ ex10_list, of ex10_rect "''tv''"] R
    by (simp add: ex10_packer_def ex10_rect_def)
qed

end
